theory Spec2Isabelle
  imports Complex_Main
begin

section \<open>JavaScript strings and characters\<close>

text \<open>
  A JavaScript string is modelled as a \<^typ>\<open>string\<close>: a list of code units below 256
  (ASCII and Latin-1). \<open>undefined\<close> (an absent request field) is \<open>None\<close> of an option
  type, and JavaScript truthiness of a string is non-emptiness.
\<close>

definition whiteSpaceChars :: string where
  "whiteSpaceChars = [CHR 0x09, CHR 0x0A, CHR 0x0B, CHR 0x0C, CHR 0x0D, CHR 0x20, CHR 0xA0]"

definition digitChars :: string where
  "digitChars = ''0123456789''"

definition lowerLetters :: string where
  "lowerLetters = ''abcdefghijklmnopqrstuvwxyz''"

definition upperLetters :: string where
  "upperLetters = ''ABCDEFGHIJKLMNOPQRSTUVWXYZ''"

definition upperLatin1 :: string where
  "upperLatin1 = [CHR 0xC0, CHR 0xC1, CHR 0xC2, CHR 0xC3, CHR 0xC4, CHR 0xC5, CHR 0xC6, CHR 0xC7,
     CHR 0xC8, CHR 0xC9, CHR 0xCA, CHR 0xCB, CHR 0xCC, CHR 0xCD, CHR 0xCE, CHR 0xCF,
     CHR 0xD0, CHR 0xD1, CHR 0xD2, CHR 0xD3, CHR 0xD4, CHR 0xD5, CHR 0xD6,
     CHR 0xD8, CHR 0xD9, CHR 0xDA, CHR 0xDB, CHR 0xDC, CHR 0xDD, CHR 0xDE]"

definition lowerLatin1 :: string where
  "lowerLatin1 = [CHR 0xE0, CHR 0xE1, CHR 0xE2, CHR 0xE3, CHR 0xE4, CHR 0xE5, CHR 0xE6, CHR 0xE7,
     CHR 0xE8, CHR 0xE9, CHR 0xEA, CHR 0xEB, CHR 0xEC, CHR 0xED, CHR 0xEE, CHR 0xEF,
     CHR 0xF0, CHR 0xF1, CHR 0xF2, CHR 0xF3, CHR 0xF4, CHR 0xF5, CHR 0xF6,
     CHR 0xF8, CHR 0xF9, CHR 0xFA, CHR 0xFB, CHR 0xFC, CHR 0xFD, CHR 0xFE]"

text \<open>The regular-expression classes \<open>\s\<close>, \<open>\d\<close> and \<open>\w\<close>.\<close>

definition isSpace :: "char \<Rightarrow> bool" where
  "isSpace c = (c \<in> set whiteSpaceChars)"

definition isDigit :: "char \<Rightarrow> bool" where
  "isDigit c = (c \<in> set digitChars)"

definition wordChars :: string where
  "wordChars = lowerLetters @ upperLetters @ digitChars @ ''_''"

definition isWord :: "char \<Rightarrow> bool" where
  "isWord c = (c \<in> set wordChars)"

text \<open>
  \<open>asciiLower\<close> is the case folding of a regular expression with the \<open>i\<close> flag (only the
  ASCII letters fold onto ASCII letters); \<open>toLowerCase\<close> is \<open>String.prototype.toLowerCase\<close>
  on the code units below 256. \<open>toUpperCase\<close> is given for ASCII: the source applies it only
  to the base-36 rendering of a number.
\<close>

definition asciiLower :: "char \<Rightarrow> char" where
  "asciiLower c = (case map_of (zip upperLetters lowerLetters) c of Some d \<Rightarrow> d | None \<Rightarrow> c)"

definition toLowerCaseChar :: "char \<Rightarrow> char" where
  "toLowerCaseChar c =
     (case map_of (zip (upperLetters @ upperLatin1) (lowerLetters @ lowerLatin1)) c of
        Some d \<Rightarrow> d | None \<Rightarrow> c)"

definition toLowerCase :: "string \<Rightarrow> string" where
  "toLowerCase s = map toLowerCaseChar s"

definition toUpperCaseChar :: "char \<Rightarrow> char" where
  "toUpperCaseChar c = (case map_of (zip lowerLetters upperLetters) c of Some d \<Rightarrow> d | None \<Rightarrow> c)"

definition toUpperCase :: "string \<Rightarrow> string" where
  "toUpperCase s = map toUpperCaseChar s"

definition trim :: "string \<Rightarrow> string" where
  "trim s = rev (dropWhile isSpace (rev (dropWhile isSpace s)))"

text \<open>\<open>s.slice(-k)\<close>, \<open>s.substring(i, j)\<close> for \<open>i \<le> j\<close>, and \<open>s.includes(sub)\<close>.\<close>

definition sliceLast :: "nat \<Rightarrow> string \<Rightarrow> string" where
  "sliceLast k s = drop (length s - k) s"

definition substring :: "nat \<Rightarrow> nat \<Rightarrow> string \<Rightarrow> string" where
  "substring i j s = take (j - i) (drop i s)"

fun includesStr :: "string \<Rightarrow> string \<Rightarrow> bool" where
  "includesStr [] sub = (sub = [])"
| "includesStr (c # cs) sub = (take (length sub) (c # cs) = sub \<or> includesStr cs sub)"

text \<open>Decimal rendering of an integer-valued number, as \<open>Number.prototype.toString\<close> gives it.\<close>

fun natToString :: "nat \<Rightarrow> string" where
  "natToString n =
     (if n < 10 then [digitChars ! n] else natToString (n div 10) @ [digitChars ! (n mod 10)])"

declare natToString.simps [simp del]

definition intToString :: "int \<Rightarrow> string" where
  "intToString i = (if i < 0 then CHR ''-'' # natToString (nat (- i)) else natToString (nat i))"


section \<open>Regular expressions\<close>

text \<open>
  The anchored patterns of the source (\<open>/^...$/.test(s)\<close>) are written as terms of \<open>rx\<close> and
  decided by derivatives; \<open>lang\<close> is their meaning. A character class lists the characters
  it admits (\<open>[0-9]\<close>, \<open>\w\<close>) or those it excludes (\<open>[^\s@]\<close>). The derivative drops dead
  and repeated alternatives as it goes, which keeps it small.
\<close>

datatype cclass = Only string | Except string

fun inClass :: "cclass \<Rightarrow> char \<Rightarrow> bool" where
  "inClass (Only cs) c = (c \<in> set cs)"
| "inClass (Except cs) c = (c \<notin> set cs)"

datatype rx = Zero | One | Atom cclass | Alt rx rx | Seq rx rx | Star rx

fun nullable :: "rx \<Rightarrow> bool" where
  "nullable Zero = False"
| "nullable One = True"
| "nullable (Atom cl) = False"
| "nullable (Alt r s) = (nullable r \<or> nullable s)"
| "nullable (Seq r s) = (nullable r \<and> nullable s)"
| "nullable (Star r) = True"

definition sAlt :: "rx \<Rightarrow> rx \<Rightarrow> rx" where
  "sAlt r s = (if r = Zero then s else if s = Zero then r else if r = s then r else Alt r s)"

definition sSeq :: "rx \<Rightarrow> rx \<Rightarrow> rx" where
  "sSeq r s = (if r = Zero \<or> s = Zero then Zero else if r = One then s else Seq r s)"

fun der :: "char \<Rightarrow> rx \<Rightarrow> rx" where
  "der c Zero = Zero"
| "der c One = Zero"
| "der c (Atom cl) = (if inClass cl c then One else Zero)"
| "der c (Alt r s) = sAlt (der c r) (der c s)"
| "der c (Seq r s) =
     (if nullable r then sAlt (sSeq (der c r) s) (der c s) else sSeq (der c r) s)"
| "der c (Star r) = sSeq (der c r) (Star r)"

definition matches :: "rx \<Rightarrow> string \<Rightarrow> bool" where
  "matches r s = nullable (fold der s r)"

definition Plus :: "rx \<Rightarrow> rx" where
  "Plus r = Seq r (Star r)"

definition Opt :: "rx \<Rightarrow> rx" where
  "Opt r = Alt One r"

definition Chr :: "char \<Rightarrow> rx" where
  "Chr c = Atom (Only [c])"

primrec rxRep :: "nat \<Rightarrow> rx \<Rightarrow> rx" where
  "rxRep 0 r = One"
| "rxRep (Suc n) r = Seq r (rxRep n r)"

definition rxRange :: "nat \<Rightarrow> nat \<Rightarrow> rx \<Rightarrow> rx" where
  "rxRange lo hi r = Seq (rxRep lo r) (rxRep (hi - lo) (Opt r))"

primrec rxLit :: "string \<Rightarrow> rx" where
  "rxLit [] = One"
| "rxLit (c # cs) = Seq (Chr c) (rxLit cs)"

inductive_set star :: "string set \<Rightarrow> string set" for A :: "string set" where
  star_nil: "[] \<in> star A"
| star_step: "u \<in> A \<Longrightarrow> v \<in> star A \<Longrightarrow> u @ v \<in> star A"

fun lang :: "rx \<Rightarrow> string set" where
  "lang Zero = {}"
| "lang One = {[]}"
| "lang (Atom cl) = {[c] | c. inClass cl c}"
| "lang (Alt r s) = lang r \<union> lang s"
| "lang (Seq r s) = {u @ v | u v. u \<in> lang r \<and> v \<in> lang s}"
| "lang (Star r) = star (lang r)"


section \<open>Input sanitisation and validation (shared by the controllers)\<close>

text \<open>
  \<open>sanitizeInput\<close>: \<open>input.trim().replace(/[<>]/g, '').replace(/javascript:/gi, '')
  .replace(/on\w+=/gi, '')\<close>. A global replace scans left to right and resumes after each
  match; in \<open>on\w+=\<close> the greedy \<open>\w+\<close> takes the whole run of word characters, since \<open>=\<close>
  is not one.
\<close>

definition stripAngle :: "string \<Rightarrow> string" where
  "stripAngle s = filter (\<lambda>c. c \<noteq> CHR ''<'' \<and> c \<noteq> CHR ''>'') s"

definition startsWithCI :: "string \<Rightarrow> string \<Rightarrow> bool" where
  "startsWithCI p s = (length p \<le> length s \<and> map asciiLower (take (length p) s) = p)"

function removeJavascript :: "string \<Rightarrow> string" where
  "removeJavascript [] = []"
| "removeJavascript (c # cs) =
     (if startsWithCI ''javascript:'' (c # cs)
      then removeJavascript (drop (length ''javascript:'') (c # cs))
      else c # removeJavascript cs)"
  by pat_completeness auto
termination
  by (relation "measure length") auto

definition handlerMatchLength :: "string \<Rightarrow> nat option" where
  "handlerMatchLength s =
     (if startsWithCI ''on'' s then
        (let w = takeWhile isWord (drop 2 s) in
         case dropWhile isWord (drop 2 s) of
           [] \<Rightarrow> None
         | d # _ \<Rightarrow> if w \<noteq> [] \<and> d = CHR ''='' then Some (2 + length w + 1) else None)
      else None)"

function removeHandlers :: "string \<Rightarrow> string" where
  "removeHandlers [] = []"
| "removeHandlers (c # cs) =
     (case handlerMatchLength (c # cs) of
        Some n \<Rightarrow> removeHandlers (drop (n - 1) cs)
      | None \<Rightarrow> c # removeHandlers cs)"
  by pat_completeness auto
termination
  by (relation "measure length") auto

definition sanitizeInput :: "string \<Rightarrow> string" where
  "sanitizeInput input = removeHandlers (removeJavascript (stripAngle (trim input)))"

text \<open>\<open>emailRegex = /^[^\s@]+@[^\s@]+\.[^\s@]+$/\<close>\<close>

definition notSpaceAt :: rx where
  "notSpaceAt = Atom (Except (whiteSpaceChars @ ''@''))"

definition emailRegex :: rx where
  "emailRegex =
     Seq (Plus notSpaceAt) (Seq (Chr CHR ''@'') (Seq (Plus notSpaceAt)
       (Seq (Chr CHR ''.'') (Plus notSpaceAt))))"

text \<open>A validation result is \<open>Inl message\<close> (\<open>isValid: false\<close>) or \<open>Inr value\<close>.\<close>

definition validateEmail :: "string \<Rightarrow> string + unit" where
  "validateEmail email =
     (if email = [] then Inl ''Email is required''
      else if \<not> matches emailRegex email then Inl ''Please enter a valid email address''
      else if length email > 254 then Inl ''Email is too long''
      else Inr ())"

text \<open>
  \<open>validateMobile\<close>: the suspicious patterns are \<open>/^0{10,}$/\<close>, \<open>/^1{10,}$/\<close> and
  \<open>/^(.)\1{9,}$/\<close>; the last has a back-reference and is written out (\<open>.\<close> matches any
  code unit but a line terminator).
\<close>

definition repeatedSame :: "string \<Rightarrow> bool" where
  "repeatedSame s =
     (case s of [] \<Rightarrow> False
      | c # cs \<Rightarrow> c \<noteq> CHR 0x0A \<and> c \<noteq> CHR 0x0D \<and> 9 \<le> length cs \<and> list_all (\<lambda>d. d = c) cs)"

definition suspiciousPatterns :: "(string \<Rightarrow> bool) list" where
  "suspiciousPatterns =
     [matches (Seq (rxRep 10 (Chr CHR ''0'')) (Star (Chr CHR ''0''))),
      matches (Seq (rxRep 10 (Chr CHR ''1'')) (Star (Chr CHR ''1''))),
      repeatedSame]"

definition validateMobile :: "string \<Rightarrow> string + string" where
  "validateMobile mobile =
     (if mobile = [] then Inl ''Mobile number is required''
      else let cleanPhone = filter isDigit mobile in
        if length cleanPhone < 10 \<or> length cleanPhone > 15
        then Inl ''Mobile number must be between 10-15 digits''
        else if list_ex (\<lambda>pattern. pattern cleanPhone) suspiciousPatterns
        then Inl ''Invalid mobile number format''
        else Inr cleanPhone)"

text \<open>\<open>validateMobileNumber\<close> of the event controller: \<open>/^[0-9]{10,15}$/\<close>.\<close>

definition mobileRegex :: rx where
  "mobileRegex = rxRange 10 15 (Atom (Only digitChars))"


text \<open>
  The schemas' \<open>match\<close> pattern for emails:
  \<open>/^\w+([.-]?\w+)*@\w+([.-]?\w+)*(\.\w{2,3})+$/\<close>.
\<close>

definition dotDash :: rx where
  "dotDash = Atom (Only ''.-'')"

definition wordChar :: rx where
  "wordChar = Atom (Only wordChars)"

definition schemaEmailRegex :: rx where
  "schemaEmailRegex =
     Seq (Plus wordChar) (Seq (Star (Seq (Opt dotDash) (Plus wordChar)))
       (Seq (Chr CHR ''@'') (Seq (Plus wordChar)
         (Seq (Star (Seq (Opt dotDash) (Plus wordChar)))
           (Plus (Seq (Chr CHR ''.'') (rxRange 2 3 wordChar)))))))"


section \<open>Reference generator\<close>

text \<open>
  Every schema's \<open>pre('save')\<close> hook builds the code the same way:
  \<^verbatim>\<open>
  const timestamp = Date.now().toString().slice(-8);
  const random = Math.random().toString(36).substring(2, 6).toUpperCase();
  this.donationReference = `DON-${timestamp}-${random}`;
  \<close>
  \<open>now\<close> is the value of \<open>Date.now()\<close> (milliseconds since the epoch) and \<open>rnd36\<close> the
  string \<open>Math.random().toString(36)\<close>: \<open>0\<close> for the number zero, otherwise \<open>0.\<close> followed
  by the base-36 digits of the fraction (\<open>0.i\<close> for one half).
\<close>

definition referenceCode :: "string \<Rightarrow> int \<Rightarrow> string \<Rightarrow> string" where
  "referenceCode prefix now rnd36 =
     (let timestamp = sliceLast 8 (intToString now);
          random = toUpperCase (substring 2 6 rnd36)
      in prefix @ ''-'' @ timestamp @ ''-'' @ random)"

text \<open>The format \<open>^<PREFIX>-\d{8}-[A-Z0-9]{4}$\<close>.\<close>

definition upperAlnumChars :: string where
  "upperAlnumChars = upperLetters @ digitChars"

definition referencePattern :: "string \<Rightarrow> rx" where
  "referencePattern prefix =
     Seq (rxLit prefix) (Seq (Chr CHR ''-'') (Seq (rxRep 8 (Atom (Only digitChars)))
       (Seq (Chr CHR ''-'') (rxRep 4 (Atom (Only upperAlnumChars))))))"

definition isBase36Digit :: "char \<Rightarrow> bool" where
  "isBase36Digit c = (c \<in> set (digitChars @ lowerLetters))"

text \<open>A field holding a reference is falsy (\<open>!this.donationReference\<close>) when absent or empty.\<close>

definition falsy :: "string option \<Rightarrow> bool" where
  "falsy v = (case v of None \<Rightarrow> True | Some s \<Rightarrow> s = [])"

definition truthy :: "string option \<Rightarrow> bool" where
  "truthy v = (\<not> falsy v)"

text \<open>\<open>v ? f(v) : ''\<close> and \<open>v || ''\<close> for an optional string field.\<close>

definition orEmpty :: "string option \<Rightarrow> string" where
  "orEmpty v = (case v of None \<Rightarrow> [] | Some s \<Rightarrow> s)"



section \<open>The document store\<close>

text \<open>
  A collection is the list of its documents in insertion order; a document's \<open>_id\<close> is its
  position. \<open>findOne\<close> returns the first match. An HTTP response is its status code and
  its \<open>message\<close>. The field \<open>f\<close> of a document of model \<open>m\<close> is \<open>m_f\<close>, which keeps
  the names of the request variables free.
\<close>

record response =
  res_status :: nat
  res_message :: string

definition respond :: "nat \<Rightarrow> string \<Rightarrow> response" where
  "respond c m = \<lparr>res_status = c, res_message = m\<rparr>"

primrec findOneIdx :: "('a \<Rightarrow> bool) \<Rightarrow> 'a list \<Rightarrow> nat option" where
  "findOneIdx P [] = None"
| "findOneIdx P (x # xs) = (if P x then Some 0 else map_option Suc (findOneIdx P xs))"

definition findOne :: "('a \<Rightarrow> bool) \<Rightarrow> 'a list \<Rightarrow> 'a option" where
  "findOne P xs = (case findOneIdx P xs of None \<Rightarrow> None | Some i \<Rightarrow> Some (xs ! i))"


text \<open>What a failed \<open>Model.create\<close> or query throws, as the \<open>catch\<close> blocks tell them apart.\<close>

datatype storeError = ValidationError | DuplicateKey | CastError


section \<open>Donations\<close>

text \<open>
  Numbers are \<open>NaN\<close>, the infinities, or a finite value (every finite double is a
  rational, and the comparisons of the source are exact on them).
\<close>

datatype jsnum = NaN | PosInf | NegInf | Fin rat

text \<open>An untyped request value, as \<open>req.body\<close> delivers it from JSON.\<close>

datatype jsval = JUndefined | JNull | JBool bool | JNumber jsnum | JString string

text \<open>
  \<open>Number(v)\<close>. The conversion of a string (ECMAScript's StringToNumber, which rounds to a
  double) is the parameter \<open>strToNum\<close>; a string that is not a numeric literal converts
  to \<open>NaN\<close>.
\<close>

fun toNumber :: "(string \<Rightarrow> jsnum) \<Rightarrow> jsval \<Rightarrow> jsnum" where
  "toNumber strToNum JUndefined = NaN"
| "toNumber strToNum JNull = Fin 0"
| "toNumber strToNum (JBool b) = (if b then Fin 1 else Fin 0)"
| "toNumber strToNum (JNumber n) = n"
| "toNumber strToNum (JString s) = strToNum s"

definition isNaN :: "jsnum \<Rightarrow> bool" where
  "isNaN n = (n = NaN)"

fun numLess :: "jsnum \<Rightarrow> jsnum \<Rightarrow> bool" where
  "numLess NaN y = False"
| "numLess x NaN = False"
| "numLess PosInf y = False"
| "numLess x NegInf = False"
| "numLess NegInf y = True"
| "numLess x PosInf = True"
| "numLess (Fin a) (Fin b) = (a < b)"

fun numLessEq :: "jsnum \<Rightarrow> jsnum \<Rightarrow> bool" where
  "numLessEq NaN y = False"
| "numLessEq x NaN = False"
| "numLessEq x PosInf = True"
| "numLessEq NegInf y = True"
| "numLessEq PosInf y = False"
| "numLessEq x NegInf = False"
| "numLessEq (Fin a) (Fin b) = (a \<le> b)"

definition validateDonationAmount :: "(string \<Rightarrow> jsnum) \<Rightarrow> jsval \<Rightarrow> string + jsnum" where
  "validateDonationAmount strToNum amount =
     (let numAmount = toNumber strToNum amount in
      if isNaN numAmount \<or> numLessEq numAmount (Fin 0)
      then Inl ''Please enter a valid donation amount''
      else if numLess numAmount (Fin 1) then Inl ''Minimum donation amount is 1''
      else if numLess (Fin 10000000) numAmount then Inl ''Maximum donation amount is 1,00,00,000''
      else Inr numAmount)"

record donation =
  donation_fullName :: string
  donation_email :: string
  donation_mobile :: string
  donation_donationAmount :: jsnum
  donation_donationType :: string
  donation_message :: string
  donation_status :: string
  donation_paymentStatus :: string
  donation_source :: string
  donation_ipAddress :: string
  donation_userAgent :: string
  donation_donationReference :: "string option"
  donation_contactedAt :: "int option"
  donation_completedAt :: "int option"
  donation_createdAt :: int
  donation_updatedAt :: int

definition donationPreSave :: "int \<Rightarrow> string \<Rightarrow> donation \<Rightarrow> donation" where
  "donationPreSave now rnd36 this =
     (if falsy (donation_donationReference this)
      then this\<lparr>donation_donationReference := Some (referenceCode ''DON'' now rnd36)\<rparr>
      else this)"









section \<open>Media submissions\<close>

record mediaSubmission =
  media_fullName :: string
  media_email :: string
  media_mediaUrl :: string
  media_description :: string
  media_mediaType :: string
  media_status :: string
  media_category :: string
  media_source :: string
  media_ipAddress :: string
  media_userAgent :: string
  media_submissionReference :: "string option"
  media_reviewedBy :: "string option"
  media_reviewedAt :: "int option"
  media_featuredAt :: "int option"
  media_rejectionReason :: "string option"
  media_createdAt :: int
  media_updatedAt :: int

definition videoMarkers :: "string list" where
  "videoMarkers = [''youtube'', ''youtu.be'', ''vimeo'', ''.mp4'', ''.mov'', ''.avi'', ''.wmv'',
     ''.flv'', ''.webm'', ''.mkv'']"

definition imageMarkers :: "string list" where
  "imageMarkers = [''.jpg'', ''.jpeg'', ''.png'', ''.gif'', ''.webp'', ''.bmp'', ''imgur'']"

text \<open>The hook generates the reference, then detects the media type from the URL.\<close>

definition mediaSubmissionPreSave :: "int \<Rightarrow> string \<Rightarrow> mediaSubmission \<Rightarrow> mediaSubmission" where
  "mediaSubmissionPreSave now rnd36 this =
     (let this1 =
            (if falsy (media_submissionReference this)
             then this\<lparr>media_submissionReference := Some (referenceCode ''MED'' now rnd36)\<rparr>
             else this)
      in if media_mediaType this1 = ''unknown'' \<and> media_mediaUrl this1 \<noteq> []
         then let url = toLowerCase (media_mediaUrl this1) in
           if list_ex (includesStr url) videoMarkers then this1\<lparr>media_mediaType := ''video''\<rparr>
           else if list_ex (includesStr url) imageMarkers then this1\<lparr>media_mediaType := ''image''\<rparr>
           else this1
         else this1)"


section \<open>Event registrations\<close>








record eventRegistration =
  registration_fullName :: string
  registration_email :: string
  registration_mobileNumber :: string
  registration_city :: string
  registration_occupation :: string
  registration_organization :: string
  registration_isPersonWithDisability :: string
  registration_disabilityType :: string
  registration_otherDisabilityText :: string
  registration_eventId :: int
  registration_eventTitle :: string
  registration_registrationReference :: "string option"
  registration_registrationStatus :: string
  registration_source :: string
  registration_ipAddress :: string
  registration_userAgent :: string
  registration_registrationDate :: int
  registration_confirmationSent :: bool
  registration_remindersSent :: nat
  registration_attendanceStatus :: string
  registration_specialAccommodations :: "string option"
  registration_notes :: "string option"
  registration_createdAt :: int
  registration_updatedAt :: int

definition eventRegistrationPreSave :: "int \<Rightarrow> string \<Rightarrow> eventRegistration \<Rightarrow> eventRegistration" where
  "eventRegistrationPreSave now rnd36 this =
     (if falsy (registration_registrationReference this)
      then this\<lparr>registration_registrationReference := Some (referenceCode ''REG'' now rnd36)\<rparr>
      else this)"













section \<open>Newsletter\<close>

record subscriber =
  subscriber_email :: string
  subscriber_status :: string
  subscriber_source :: string
  subscriber_ipAddress :: string
  subscriber_userAgent :: string
  subscriber_subscribedAt :: int
  subscriber_unsubscribedAt :: "int option"
  subscriber_unsubscribeToken :: "string option"
  subscriber_createdAt :: int
  subscriber_updatedAt :: int

text \<open>
  The newsletter schema: \<open>email\<close> is required, trimmed, lower-cased, unique and matched
  against the schema pattern; \<open>status\<close> is one of \<open>active\<close>, \<open>inactive\<close>,
  \<open>unsubscribed\<close>. It has no \<open>pre('save')\<close> hook.
\<close>

definition newsletterCreate :: "subscriber \<Rightarrow> subscriber list \<Rightarrow> storeError + subscriber list" where
  "newsletterCreate doc store =
     (let d1 = doc\<lparr>subscriber_email := trim (toLowerCase (subscriber_email doc))\<rparr> in
      if subscriber_email d1 = [] \<or> \<not> matches schemaEmailRegex (subscriber_email d1)
      then Inl ValidationError
      else if list_ex (\<lambda>r. subscriber_email r = subscriber_email d1) store
      then Inl DuplicateKey
      else Inr (store @ [d1]))"

definition subscribeNewsletterOutcome ::
  "storeError + subscriber list \<Rightarrow> subscriber list \<Rightarrow> response \<times> subscriber list" where
  "subscribeNewsletterOutcome created store =
     (case created of
        Inr store' \<Rightarrow>
          (respond 201 ''Thank you for subscribing! Check your email for confirmation.'', store')
      | Inl DuplicateKey \<Rightarrow>
          (respond 400 ''This email is already subscribed to our newsletter'', store)
      | Inl ValidationError \<Rightarrow>
          (respond 500 ''Internal server error. Please try again later.'', store)
      | Inl CastError \<Rightarrow>
          (respond 500 ''Internal server error. Please try again later.'', store))"

text \<open>
  \<open>subscribeNewsletter\<close>; \<open>token\<close> is the fresh value of
  \<open>crypto.randomBytes(32).toString('hex')\<close>. A record that is neither \<open>active\<close> nor
  \<open>unsubscribed\<close> falls through to \<open>Newsletter.create\<close>.
\<close>

definition subscribeNewsletter ::
  "string option \<Rightarrow> string \<Rightarrow> string \<Rightarrow> int \<Rightarrow> string \<Rightarrow> subscriber list
     \<Rightarrow> response \<times> subscriber list" where
  "subscribeNewsletter email0 ipAddress userAgent now token store =
     (if falsy email0 then (respond 400 ''Email is required'', store)
      else
        let email = sanitizeInput (toLowerCase (orEmpty email0));
            created = newsletterCreate
              \<lparr>subscriber_email = email,
               subscriber_status = ''active'',
               subscriber_source = ''website-subscription'',
               subscriber_ipAddress = ipAddress,
               subscriber_userAgent = userAgent,
               subscriber_subscribedAt = now,
               subscriber_unsubscribedAt = None,
               subscriber_unsubscribeToken = Some token,
               subscriber_createdAt = now,
               subscriber_updatedAt = now\<rparr> store
        in
        (case validateEmail email of
           Inl msg \<Rightarrow> (respond 400 msg, store)
         | Inr _ \<Rightarrow>
           (case findOneIdx (\<lambda>r. subscriber_email r = email) store of
              None \<Rightarrow> subscribeNewsletterOutcome created store
            | Some i \<Rightarrow>
                let existingSubscriber = store ! i in
                if subscriber_status existingSubscriber = ''active''
                then (respond 400 ''This email is already subscribed to our newsletter'', store)
                else if subscriber_status existingSubscriber = ''unsubscribed''
                then (respond 200 ''Welcome back! Your subscription has been reactivated.'',
                      store[i := existingSubscriber
                        \<lparr>subscriber_status := ''active'',
                         subscriber_subscribedAt := now,
                         subscriber_unsubscribedAt := None,
                         subscriber_unsubscribeToken := Some token,
                         subscriber_updatedAt := now\<rparr>])
                else subscribeNewsletterOutcome created store)))"

text \<open>\<open>unsubscribeNewsletter\<close>: the record is looked up by its token alone.\<close>

definition unsubscribeNewsletter ::
  "string \<Rightarrow> int \<Rightarrow> subscriber list \<Rightarrow> response \<times> subscriber list" where
  "unsubscribeNewsletter token now store =
     (if token = [] then (respond 400 ''Invalid unsubscribe token'', store)
      else (case findOneIdx (\<lambda>r. subscriber_unsubscribeToken r = Some token) store of
              None \<Rightarrow> (respond 404 ''Invalid or expired unsubscribe link'', store)
            | Some i \<Rightarrow>
                (respond 200 ''You have been successfully unsubscribed from our newsletter.'',
                 store[i := (store ! i)
                   \<lparr>subscriber_status := ''unsubscribed'',
                    subscriber_unsubscribedAt := Some now,
                    subscriber_updatedAt := now\<rparr>])))"


section \<open>Contact-us\<close>

record contactUs =
  contactUs_fullName :: string
  contactUs_email :: string
  contactUs_mobile :: string
  contactUs_subject :: string
  contactUs_message :: string
  contactUs_status :: string
  contactUs_priority :: string
  contactUs_source :: string
  contactUs_ipAddress :: string
  contactUs_userAgent :: string
  contactUs_ticketReference :: "string option"
  contactUs_assignedTo :: "string option"
  contactUs_resolvedAt :: "int option"
  contactUs_notes :: "string option"
  contactUs_createdAt :: int
  contactUs_updatedAt :: int

definition contactUsPreSave :: "int \<Rightarrow> string \<Rightarrow> contactUs \<Rightarrow> contactUs" where
  "contactUsPreSave now rnd36 this =
     (if falsy (contactUs_ticketReference this)
      then this\<lparr>contactUs_ticketReference := Some (referenceCode ''TICKET'' now rnd36)\<rparr>
      else this)"

definition validSubjects :: "string list" where
  "validSubjects = [''general-inquiry'', ''volunteering'', ''internship'', ''partnership'',
     ''donation'', ''other'']"

definition contactUsSetters :: "contactUs \<Rightarrow> contactUs" where
  "contactUsSetters d =
     d\<lparr>contactUs_fullName := trim (contactUs_fullName d),
       contactUs_email := trim (toLowerCase (contactUs_email d)),
       contactUs_mobile := trim (contactUs_mobile d),
       contactUs_message := trim (contactUs_message d)\<rparr>"

definition contactUsValid :: "contactUs \<Rightarrow> bool" where
  "contactUsValid d =
     (contactUs_fullName d \<noteq> [] \<and> 2 \<le> length (contactUs_fullName d)
      \<and> length (contactUs_fullName d) \<le> 100
      \<and> contactUs_email d \<noteq> [] \<and> matches schemaEmailRegex (contactUs_email d)
      \<and> contactUs_mobile d \<noteq> [] \<and> matches mobileRegex (contactUs_mobile d)
      \<and> contactUs_subject d \<in> set validSubjects
      \<and> contactUs_message d \<noteq> [] \<and> 10 \<le> length (contactUs_message d)
      \<and> length (contactUs_message d) \<le> 1500
      \<and> contactUs_status d \<in> set [''new'', ''in-progress'', ''resolved'', ''closed'']
      \<and> contactUs_priority d \<in> set [''low'', ''medium'', ''high'', ''urgent''])"

definition contactUsCreate ::
  "contactUs \<Rightarrow> int \<Rightarrow> string \<Rightarrow> contactUs list \<Rightarrow> storeError + contactUs list" where
  "contactUsCreate doc now rnd36 store =
     (let d1 = contactUsSetters doc in
      if \<not> contactUsValid d1 then Inl ValidationError
      else let d2 = contactUsPreSave now rnd36 d1 in
        if list_ex (\<lambda>r. contactUs_ticketReference r = contactUs_ticketReference d2) store
        then Inl DuplicateKey
        else Inr (store @ [d2]))"

text \<open>
  \<open>submitContactUs\<close> reads \<open>fullName\<close>, \<open>email\<close>, \<open>mobile\<close>, \<open>subject\<close> and \<open>message\<close>
  from the request body and nothing else. \<open>contactUsInput\<close> is its first part, the presence
  check, the sanitisation and the field checks in the order of the source: the message of
  the first failing check (answered 400), or the normalised \<open>fullName\<close>, \<open>email\<close>,
  \<open>cleanPhone\<close>, \<open>subject\<close> and \<open>message\<close>.
\<close>

definition contactUsInput ::
  "string option \<Rightarrow> string option \<Rightarrow> string option \<Rightarrow> string option \<Rightarrow> string option
     \<Rightarrow> string + (string \<times> string \<times> string \<times> string \<times> string)" where
  "contactUsInput fullName0 email0 mobile0 subject0 message0 =
     (if falsy fullName0 \<or> falsy email0 \<or> falsy mobile0 \<or> falsy subject0 \<or> falsy message0
      then Inl ''All fields are required''
      else
        let fullName = sanitizeInput (orEmpty fullName0);
            email = sanitizeInput (toLowerCase (orEmpty email0));
            mobile = sanitizeInput (orEmpty mobile0);
            subject = sanitizeInput (orEmpty subject0);
            msg = sanitizeInput (orEmpty message0)
        in
        if length fullName < 2 \<or> length fullName > 100
        then Inl ''Name must be between 2-100 characters''
        else (case validateEmail email of
          Inl m \<Rightarrow> Inl m
        | Inr _ \<Rightarrow>
         (case validateMobile mobile of
            Inl m \<Rightarrow> Inl m
          | Inr cleanPhone \<Rightarrow>
            if subject \<notin> set validSubjects then Inl ''Invalid subject selected''
            else if length msg < 10 \<or> length msg > 1500
            then Inl ''Message must be between 10-1500 characters''
            else Inr (fullName, email, cleanPhone, subject, msg))))"

text \<open>
  The rest of the handler: the duplicate guard (same email within the last 15 minutes), the
  priority computed from the subject, and \<open>ContactUs.create\<close>, any error of which is
  answered with 500.
\<close>

definition submitContactUs ::
  "string option \<Rightarrow> string option \<Rightarrow> string option \<Rightarrow> string option \<Rightarrow> string option
     \<Rightarrow> string \<Rightarrow> string \<Rightarrow> int \<Rightarrow> string \<Rightarrow> contactUs list \<Rightarrow> response \<times> contactUs list" where
  "submitContactUs fullName0 email0 mobile0 subject0 message0 ipAddress userAgent now rnd36 store =
     (case contactUsInput fullName0 email0 mobile0 subject0 message0 of
        Inl m \<Rightarrow> (respond 400 m, store)
      | Inr (fullName, email, cleanPhone, subject, msg) \<Rightarrow>
          let fifteenMinutesAgo = now - 15 * 60 * 1000 in
          if findOne (\<lambda>r. contactUs_email r = email
                            \<and> fifteenMinutesAgo \<le> contactUs_createdAt r) store \<noteq> None
          then (respond 429
            ''Please wait at least 15 minutes before submitting another contact request'',
            store)
          else
            let priority =
                  (if subject = ''donation'' \<or> subject = ''partnership'' then ''high''
                   else if subject = ''general-inquiry'' then ''low''
                   else ''medium'')
            in
            (case contactUsCreate
                \<lparr>contactUs_fullName = fullName,
                 contactUs_email = email,
                 contactUs_mobile = cleanPhone,
                 contactUs_subject = subject,
                 contactUs_message = msg,
                 contactUs_status = ''new'',
                 contactUs_priority = priority,
                 contactUs_source = ''website-contact-us'',
                 contactUs_ipAddress = ipAddress,
                 contactUs_userAgent = userAgent,
                 contactUs_ticketReference = None,
                 contactUs_assignedTo = None,
                 contactUs_resolvedAt = None,
                 contactUs_notes = None,
                 contactUs_createdAt = now,
                 contactUs_updatedAt = now\<rparr> now rnd36 store of
               Inl _ \<Rightarrow> (respond 500 ''Internal server error. Please try again later.'', store)
             | Inr store' \<Rightarrow>
                 (respond 201
                   ''Thank you for contacting us! We have received your message and will get back to you soon.'',
                  store')))"


section \<open>Volunteers\<close>

record volunteer =
  volunteer_fullName :: string
  volunteer_email :: string
  volunteer_mobile :: string
  volunteer_expertise :: "string list"
  volunteer_howToHelp :: string
  volunteer_message :: string
  volunteer_status :: string
  volunteer_availability :: string
  volunteer_source :: string
  volunteer_ipAddress :: string
  volunteer_userAgent :: string
  volunteer_volunteerReference :: "string option"
  volunteer_reviewedBy :: "string option"
  volunteer_reviewedAt :: "int option"
  volunteer_approvedAt :: "int option"
  volunteer_rejectionReason :: "string option"
  volunteer_notes :: "string option"
  volunteer_createdAt :: int
  volunteer_updatedAt :: int

definition volunteerPreSave :: "int \<Rightarrow> string \<Rightarrow> volunteer \<Rightarrow> volunteer" where
  "volunteerPreSave now rnd36 this =
     (if falsy (volunteer_volunteerReference this)
      then this\<lparr>volunteer_volunteerReference := Some (referenceCode ''VOL'' now rnd36)\<rparr>
      else this)"

definition validExpertise :: "string list" where
  "validExpertise = [''Education'', ''Skill Development'', ''Content Creation'', ''Advocacy'',
     ''Event Coordination'', ''Research & Policy'', ''More'']"

definition volunteerSetters :: "volunteer \<Rightarrow> volunteer" where
  "volunteerSetters d =
     d\<lparr>volunteer_fullName := trim (volunteer_fullName d),
       volunteer_email := trim (toLowerCase (volunteer_email d)),
       volunteer_mobile := trim (volunteer_mobile d),
       volunteer_howToHelp := trim (volunteer_howToHelp d),
       volunteer_message := trim (volunteer_message d)\<rparr>"

definition volunteerValid :: "volunteer \<Rightarrow> bool" where
  "volunteerValid d =
     (volunteer_fullName d \<noteq> [] \<and> 2 \<le> length (volunteer_fullName d)
      \<and> length (volunteer_fullName d) \<le> 100
      \<and> volunteer_email d \<noteq> [] \<and> matches schemaEmailRegex (volunteer_email d)
      \<and> volunteer_mobile d \<noteq> [] \<and> matches mobileRegex (volunteer_mobile d)
      \<and> list_all (\<lambda>e. e \<in> set validExpertise) (volunteer_expertise d)
      \<and> volunteer_howToHelp d \<noteq> [] \<and> 10 \<le> length (volunteer_howToHelp d)
      \<and> length (volunteer_howToHelp d) \<le> 1000
      \<and> length (volunteer_message d) \<le> 500
      \<and> volunteer_status d \<in> set [''pending'', ''reviewed'', ''approved'', ''active'',
           ''inactive'', ''rejected'']
      \<and> volunteer_availability d \<in> set [''part-time'', ''full-time'', ''weekends'', ''flexible''])"

text \<open>The unique indexes of volunteers: \<open>email\<close> and \<open>volunteerReference\<close>.\<close>

definition volunteerCreate ::
  "volunteer \<Rightarrow> int \<Rightarrow> string \<Rightarrow> volunteer list \<Rightarrow> storeError + volunteer list" where
  "volunteerCreate doc now rnd36 store =
     (let d1 = volunteerSetters doc in
      if \<not> volunteerValid d1 then Inl ValidationError
      else let d2 = volunteerPreSave now rnd36 d1 in
        if list_ex (\<lambda>r. volunteer_email r = volunteer_email d2) store
           \<or> list_ex (\<lambda>r. volunteer_volunteerReference r = volunteer_volunteerReference d2) store
        then Inl DuplicateKey
        else Inr (store @ [d2]))"

text \<open>
  The expertise loop of \<open>registerVolunteer\<close>: when \<open>expertise\<close> is an array, each entry is
  sanitised and pushed if the closed set includes it; \<open>None\<close> is a value that is not an
  array.
\<close>

definition sanitizedExpertise :: "string list option \<Rightarrow> string list" where
  "sanitizedExpertise expertise =
     (case expertise of
        None \<Rightarrow> []
      | Some exps \<Rightarrow> filter (\<lambda>cleanExp. cleanExp \<in> set validExpertise) (map sanitizeInput exps))"

definition registerVolunteerOutcome ::
  "storeError + volunteer list \<Rightarrow> volunteer list \<Rightarrow> response \<times> volunteer list" where
  "registerVolunteerOutcome created store =
     (case created of
        Inr store' \<Rightarrow>
          (respond 201
            ''Thank you for registering as a volunteer with MAD Foundation. Our team will connect with you soon to discuss how you can make an impact.'',
           store')
      | Inl DuplicateKey \<Rightarrow> (respond 400 ''A volunteer with this email already exists'', store)
      | Inl ValidationError \<Rightarrow>
          (respond 500 ''Internal server error. Please try again later.'', store)
      | Inl CastError \<Rightarrow>
          (respond 500 ''Internal server error. Please try again later.'', store))"

text \<open>
  \<open>volunteerInput\<close> is the first part of \<open>registerVolunteer\<close>: the presence check, the
  sanitisation and the field checks, in the order of the source (the expertise loop, which
  cannot fail, stands between the checks of \<open>howToHelp\<close> and \<open>message\<close>). It gives the
  message of the first failing check (answered 400), or the normalised \<open>fullName\<close>,
  \<open>email\<close>, \<open>cleanPhone\<close>, \<open>howToHelp\<close> and \<open>message\<close>.
\<close>

definition volunteerInput ::
  "string option \<Rightarrow> string option \<Rightarrow> string option \<Rightarrow> string option \<Rightarrow> string option
     \<Rightarrow> string + (string \<times> string \<times> string \<times> string \<times> string)" where
  "volunteerInput fullName0 email0 mobile0 howToHelp0 message0 =
     (if falsy fullName0 \<or> falsy email0 \<or> falsy mobile0 \<or> falsy howToHelp0
      then Inl ''All required fields must be filled''
      else
        let fullName = sanitizeInput (orEmpty fullName0);
            email = sanitizeInput (toLowerCase (orEmpty email0));
            mobile = sanitizeInput (orEmpty mobile0);
            howToHelp = sanitizeInput (orEmpty howToHelp0);
            msg = (if truthy message0 then sanitizeInput (orEmpty message0) else [])
        in
        if length fullName < 2 \<or> length fullName > 100
        then Inl ''Name must be between 2-100 characters''
        else (case validateEmail email of
          Inl m \<Rightarrow> Inl m
        | Inr _ \<Rightarrow>
         (case validateMobile mobile of
            Inl m \<Rightarrow> Inl m
          | Inr cleanPhone \<Rightarrow>
            if length howToHelp < 10 \<or> length howToHelp > 1000
            then Inl ''Description must be between 10-1000 characters''
            else if msg \<noteq> [] \<and> length msg > 500
            then Inl ''Message must be less than 500 characters''
            else Inr (fullName, email, cleanPhone, howToHelp, msg))))"

definition registerVolunteer ::
  "string option \<Rightarrow> string option \<Rightarrow> string option \<Rightarrow> string list option \<Rightarrow> string option
     \<Rightarrow> string option \<Rightarrow> string \<Rightarrow> string \<Rightarrow> int \<Rightarrow> string \<Rightarrow> volunteer list
     \<Rightarrow> response \<times> volunteer list" where
  "registerVolunteer fullName0 email0 mobile0 expertise howToHelp0 message0 ipAddress userAgent
       now rnd36 store =
     (case volunteerInput fullName0 email0 mobile0 howToHelp0 message0 of
        Inl m \<Rightarrow> (respond 400 m, store)
      | Inr (fullName, email, cleanPhone, howToHelp, msg) \<Rightarrow>
          if findOne (\<lambda>r. volunteer_email r = email) store \<noteq> None
          then (respond 400 ''A volunteer with this email already exists'', store)
          else registerVolunteerOutcome
            (volunteerCreate
              \<lparr>volunteer_fullName = fullName,
               volunteer_email = email,
               volunteer_mobile = cleanPhone,
               volunteer_expertise = sanitizedExpertise expertise,
               volunteer_howToHelp = howToHelp,
               volunteer_message = msg,
               volunteer_status = ''pending'',
               volunteer_availability = ''flexible'',
               volunteer_source = ''website-volunteer-form'',
               volunteer_ipAddress = ipAddress,
               volunteer_userAgent = userAgent,
               volunteer_volunteerReference = None,
               volunteer_reviewedBy = None,
               volunteer_reviewedAt = None,
               volunteer_approvedAt = None,
               volunteer_rejectionReason = None,
               volunteer_notes = None,
               volunteer_createdAt = now,
               volunteer_updatedAt = now\<rparr> now rnd36 store)
            store)"


section \<open>Status updates of contact-us tickets and volunteers\<close>














section \<open>Sample documents\<close>

definition sampleDonation :: donation where
  "sampleDonation =
     \<lparr>donation_fullName = ''Asha Rao'',
      donation_email = ''asha@example.org'',
      donation_mobile = ''9876543210'',
      donation_donationAmount = Fin 500,
      donation_donationType = ''One-Time'',
      donation_message = [],
      donation_status = ''pending'',
      donation_paymentStatus = ''pending'',
      donation_source = ''website-donation-form'',
      donation_ipAddress = ''10.0.0.1'',
      donation_userAgent = ''agent'',
      donation_donationReference = None,
      donation_contactedAt = None,
      donation_completedAt = None,
      donation_createdAt = 1700000000000,
      donation_updatedAt = 1700000000000\<rparr>"

definition sampleSubscriber :: subscriber where
  "sampleSubscriber =
     \<lparr>subscriber_email = ''asha@example.org'',
      subscriber_status = ''active'',
      subscriber_source = ''website-subscription'',
      subscriber_ipAddress = ''10.0.0.1'',
      subscriber_userAgent = ''agent'',
      subscriber_subscribedAt = 1700000000000,
      subscriber_unsubscribedAt = None,
      subscriber_unsubscribeToken = Some ''a1b2c3'',
      subscriber_createdAt = 1700000000000,
      subscriber_updatedAt = 1700000000000\<rparr>"


definition sampleContactUs :: contactUs where
  "sampleContactUs =
     \<lparr>contactUs_fullName = ''Asha Rao'',
      contactUs_email = ''asha@example.org'',
      contactUs_mobile = ''919876543210'',
      contactUs_subject = ''donation'',
      contactUs_message = ''Please send me the donation details.'',
      contactUs_status = ''new'',
      contactUs_priority = ''high'',
      contactUs_source = ''website-contact-us'',
      contactUs_ipAddress = ''10.0.0.1'',
      contactUs_userAgent = ''agent'',
      contactUs_ticketReference = Some ''TICKET-00000123-K3X9'',
      contactUs_assignedTo = None,
      contactUs_resolvedAt = None,
      contactUs_notes = None,
      contactUs_createdAt = 1700000000123,
      contactUs_updatedAt = 1700000000123\<rparr>"

definition sampleVolunteer :: volunteer where
  "sampleVolunteer =
     \<lparr>volunteer_fullName = ''Asha Rao'',
      volunteer_email = ''asha@example.org'',
      volunteer_mobile = ''919876543210'',
      volunteer_expertise = [''Education''],
      volunteer_howToHelp = ''I can teach mathematics on weekends.'',
      volunteer_message = [],
      volunteer_status = ''pending'',
      volunteer_availability = ''flexible'',
      volunteer_source = ''website-volunteer-form'',
      volunteer_ipAddress = ''10.0.0.1'',
      volunteer_userAgent = ''agent'',
      volunteer_volunteerReference = Some ''VOL-00000123-K3X9'',
      volunteer_reviewedBy = None,
      volunteer_reviewedAt = None,
      volunteer_approvedAt = None,
      volunteer_rejectionReason = None,
      volunteer_notes = None,
      volunteer_createdAt = 1700000000123,
      volunteer_updatedAt = 1700000000123\<rparr>"


section \<open>Properties: regular expressions and decimal strings\<close>

lemma nullable_iff: "nullable r \<longleftrightarrow> [] \<in> lang r"
  by (induction r) (auto intro: star.intros)

lemma star_Cons_iff:
  "c # w \<in> star A \<longleftrightarrow> (\<exists>u v. w = u @ v \<and> c # u \<in> A \<and> v \<in> star A)"
proof
  assume "c # w \<in> star A"
  then show "\<exists>u v. w = u @ v \<and> c # u \<in> A \<and> v \<in> star A"
  proof (induction "c # w" arbitrary: w rule: star.induct)
    case (star_step u v)
    then show ?case
      by (cases u) auto
  qed
next
  assume "\<exists>u v. w = u @ v \<and> c # u \<in> A \<and> v \<in> star A"
  then obtain u v where "w = u @ v" "c # u \<in> A" "v \<in> star A" by blast
  then show "c # w \<in> star A"
    using star.star_step [of "c # u" A v] by simp
qed

lemma seq_Cons_iff:
  "(\<exists>u v. c # w = u @ v \<and> u \<in> A \<and> v \<in> B) \<longleftrightarrow>
   (\<exists>u v. w = u @ v \<and> c # u \<in> A \<and> v \<in> B) \<or> ([] \<in> A \<and> c # w \<in> B)"
proof
  assume "\<exists>u v. c # w = u @ v \<and> u \<in> A \<and> v \<in> B"
  then obtain u v where uv: "c # w = u @ v" "u \<in> A" "v \<in> B" by blast
  show "(\<exists>u v. w = u @ v \<and> c # u \<in> A \<and> v \<in> B) \<or> ([] \<in> A \<and> c # w \<in> B)"
  proof (cases u)
    case Nil
    with uv show ?thesis by simp
  next
    case (Cons d u')
    with uv have "w = u' @ v" "c # u' \<in> A" by simp_all
    with uv(3) show ?thesis by blast
  qed
next
  assume "(\<exists>u v. w = u @ v \<and> c # u \<in> A \<and> v \<in> B) \<or> ([] \<in> A \<and> c # w \<in> B)"
  then show "\<exists>u v. c # w = u @ v \<and> u \<in> A \<and> v \<in> B"
  proof
    assume "\<exists>u v. w = u @ v \<and> c # u \<in> A \<and> v \<in> B"
    then obtain u v where "w = u @ v" "c # u \<in> A" "v \<in> B" by blast
    then have "c # w = (c # u) @ v \<and> c # u \<in> A \<and> v \<in> B" by simp
    then show ?thesis by blast
  next
    assume "[] \<in> A \<and> c # w \<in> B"
    then have "c # w = [] @ (c # w) \<and> [] \<in> A \<and> c # w \<in> B" by simp
    then show ?thesis by blast
  qed
qed

lemma lang_sAlt: "lang (sAlt r s) = lang r \<union> lang s"
  by (auto simp: sAlt_def)

lemma lang_sSeq: "lang (sSeq r s) = lang (Seq r s)"
  by (auto simp: sSeq_def)

lemma lang_der: "w \<in> lang (der c r) \<longleftrightarrow> c # w \<in> lang r"
proof (induction r arbitrary: w)
  case (Seq r s)
  show ?case
    using Seq by (simp add: seq_Cons_iff nullable_iff lang_sAlt lang_sSeq)
next
  case (Star r)
  then show ?case
    by (simp add: star_Cons_iff lang_sSeq)
qed (auto simp: lang_sAlt)

lemma matches_iff_lang: "matches r w \<longleftrightarrow> w \<in> lang r"
  unfolding matches_def
  by (induction w arbitrary: r) (auto simp: nullable_iff lang_der)

lemma lang_rxLit: "lang (rxLit s) = {s}"
  by (induction s) (auto simp: Chr_def)

lemma Cons_in_Seq_Atom:
  "a # t \<in> lang (Seq (Atom cl) r) \<longleftrightarrow> inClass cl a \<and> t \<in> lang r"
proof
  assume "a # t \<in> lang (Seq (Atom cl) r)"
  then show "inClass cl a \<and> t \<in> lang r" by auto
next
  assume "inClass cl a \<and> t \<in> lang r"
  then have "a # t = [a] @ t \<and> [a] \<in> lang (Atom cl) \<and> t \<in> lang r" by simp
  then show "a # t \<in> lang (Seq (Atom cl) r)"
    unfolding lang.simps by blast
qed

lemma lang_Plus_Atom:
  "s \<in> lang (Plus (Atom cl)) \<longleftrightarrow> s \<noteq> [] \<and> (\<forall>c\<in>set s. inClass cl c)"
proof -
  have st: "t \<in> star (lang (Atom cl)) \<longleftrightarrow> (\<forall>c\<in>set t. inClass cl c)" for t
  proof (induction t)
    case Nil
    show ?case by (simp add: star.star_nil)
  next
    case (Cons a t)
    then show ?case by (auto simp: star_Cons_iff)
  qed
  show ?thesis
  proof (cases s)
    case Nil
    then show ?thesis by (simp add: Plus_def)
  next
    case (Cons a t)
    have "a # t \<in> lang (Plus (Atom cl)) \<longleftrightarrow> inClass cl a \<and> t \<in> lang (Star (Atom cl))"
      unfolding Plus_def by (rule Cons_in_Seq_Atom)
    moreover have "t \<in> lang (Star (Atom cl)) \<longleftrightarrow> (\<forall>c\<in>set t. inClass cl c)"
      using st [of t] by (simp only: lang.simps(6))
    ultimately show ?thesis
      using Cons by simp
  qed
qed

lemma lang_rxRep_Atom:
  "s \<in> lang (rxRep n (Atom cl)) \<longleftrightarrow> length s = n \<and> (\<forall>c\<in>set s. inClass cl c)"
proof (induction n arbitrary: s)
  case 0
  then show ?case by auto
next
  case (Suc n)
  show ?case
  proof (cases s)
    case Nil
    then show ?thesis by simp
  next
    case (Cons a t)
    then show ?thesis
      using Suc [of t] by (simp only: rxRep.simps Cons_in_Seq_Atom) auto
  qed
qed


lemma natToString_digits: "\<forall>c\<in>set (natToString n). isDigit c"
proof (induction n rule: natToString.induct)
  case (1 n)
  have "length digitChars = 10"
    by (simp add: digitChars_def)
  then have d: "\<And>k. k < 10 \<Longrightarrow> isDigit (digitChars ! k)"
    unfolding isDigit_def by (simp add: nth_mem)
  show ?case
  proof (cases "n < 10")
    case True
    then show ?thesis by (simp add: natToString.simps [of n] d)
  next
    case False
    then show ?thesis using 1 by (simp add: natToString.simps [of n] d)
  qed
qed

lemma natToString_length: "10 ^ k \<le> n \<Longrightarrow> k < length (natToString n)"
proof (induction n arbitrary: k rule: natToString.induct)
  case (1 n)
  show ?case
  proof (cases "n < 10")
    case True
    have "k = 0"
    proof (rule ccontr)
      assume "k \<noteq> 0"
      then have "(10::nat) ^ 1 \<le> 10 ^ k"
        by (intro power_increasing) auto
      with True 1(2) show False by simp
    qed
    then show ?thesis by (simp add: natToString.simps [of n])
  next
    case False
    show ?thesis
    proof (cases k)
      case 0
      then show ?thesis by (simp add: natToString.simps [of n])
    next
      case (Suc j)
      with 1(2) have "10 ^ j \<le> n div 10" by simp
      with 1(1) False have "j < length (natToString (n div 10))" by simp
      with Suc False show ?thesis by (simp add: natToString.simps [of n])
    qed
  qed
qed

lemma lang_Seq_append: "u \<in> lang r \<Longrightarrow> v \<in> lang s \<Longrightarrow> u @ v \<in> lang (Seq r s)"
  by auto

lemma lang_Chr: "[c] \<in> lang (Chr c)"
  by (simp add: Chr_def)

lemma rxRep_numeral: "rxRep (numeral k) r = Seq r (rxRep (pred_numeral k) r)"
  by (simp add: numeral_eq_Suc)


section \<open>Properties: reference generator\<close>

lemma base36_upper: "isBase36Digit c \<Longrightarrow> inClass (Only upperAlnumChars) (toUpperCaseChar c)"
  unfolding isBase36Digit_def upperAlnumChars_def toUpperCaseChar_def
    digitChars_def lowerLetters_def upperLetters_def
  by auto

lemma timestamp_fragment:
  assumes "10000000 \<le> now"
  shows "sliceLast 8 (intToString now) \<in> lang (rxRep 8 (Atom (Only digitChars)))"
proof -
  from assms have nn: "\<not> now < 0" and n: "10 ^ 7 \<le> nat now" by simp_all
  from n have "7 < length (natToString (nat now))" by (rule natToString_length)
  then have len: "length (sliceLast 8 (natToString (nat now))) = 8"
    by (simp add: sliceLast_def)
  have "set (sliceLast 8 (natToString (nat now))) \<subseteq> set (natToString (nat now))"
    unfolding sliceLast_def by (rule set_drop_subset)
  with natToString_digits [of "nat now"]
  have "\<forall>c\<in>set (sliceLast 8 (natToString (nat now))). isDigit c" by blast
  with len nn show ?thesis
    by (simp add: intToString_def lang_rxRep_Atom isDigit_def)
qed

lemma random_fragment:
  assumes "rnd36 = ''0.'' @ ds" and "4 \<le> length ds" and "\<forall>c\<in>set ds. isBase36Digit c"
  shows "toUpperCase (substring 2 6 rnd36) \<in> lang (rxRep 4 (Atom (Only upperAlnumChars)))"
proof -
  from assms(1) have s: "substring 2 6 rnd36 = take 4 ds"
    by (simp add: substring_def)
  have "set (take 4 ds) \<subseteq> set ds" by (rule set_take_subset)
  with assms(3) have "\<forall>c\<in>set (take 4 ds). inClass (Only upperAlnumChars) (toUpperCaseChar c)"
    by (blast intro: base36_upper)
  with assms(2) s show ?thesis
    by (simp add: lang_rxRep_Atom toUpperCase_def)
qed

lemmas referenceCode_eval =
  referenceCode_def intToString_def natToString.simps sliceLast_def substring_def
  toUpperCase_def toUpperCaseChar_def lowerLetters_def upperLetters_def digitChars_def

text \<open>
  C3 (as amended). Whenever the clock reads at least 10000000 ms (any time from
  1970-01-01T02:46:40Z on) and the base-36 rendering of the random number has at least four
  fractional digits, the generated code matches \<open>^<PREFIX>-\d{8}-[A-Z0-9]{4}$\<close>: the
  prefix, a hyphen, the last 8 decimal digits of the timestamp, a hyphen and 4 upper-case
  alphanumeric characters.
\<close>

theorem referenceCode_matches_pattern:
  assumes "10000000 \<le> now" and "rnd36 = ''0.'' @ ds" and "4 \<le> length ds"
    and "\<forall>c\<in>set ds. isBase36Digit c"
  shows "matches (referencePattern prefix) (referenceCode prefix now rnd36)"
proof -
  have p: "prefix \<in> lang (rxLit prefix)" by (simp add: lang_rxLit)
  have t: "sliceLast 8 (intToString now) \<in> lang (rxRep 8 (Atom (Only digitChars)))"
    using assms(1) by (rule timestamp_fragment)
  have r: "toUpperCase (substring 2 6 rnd36) \<in> lang (rxRep 4 (Atom (Only upperAlnumChars)))"
    using assms(2-4) by (rule random_fragment)
  have "prefix @ (''-'' @ (sliceLast 8 (intToString now) @ (''-'' @ toUpperCase (substring 2 6 rnd36))))
      \<in> lang (referencePattern prefix)"
    unfolding referencePattern_def
    by (intro lang_Seq_append p t r lang_Chr)
  then show ?thesis
    by (simp add: matches_iff_lang referenceCode_def)
qed

theorem referenceCode_matches_pattern_witness:
  "(10000000::int) \<le> 1700000000123 \<and> ''0.k3x9ab'' = ''0.'' @ ''k3x9ab'' \<and> 4 \<le> length ''k3x9ab''
   \<and> list_all isBase36Digit ''k3x9ab''
   \<and> matches (referencePattern ''DON'') (referenceCode ''DON'' 1700000000123 ''0.k3x9ab'')"
proof -
  have h: "\<forall>c\<in>set ''k3x9ab''. isBase36Digit c"
    by (simp add: isBase36Digit_def digitChars_def lowerLetters_def)
  show ?thesis
    using h referenceCode_matches_pattern [of 1700000000123 "''0.k3x9ab''" "''k3x9ab''" "''DON''"]
    by (simp add: list_all_iff)
qed

text \<open>
  The format fails when \<open>Math.random()\<close> is one half (rendered \<open>0.i\<close>, so the suffix is
  the single character \<open>I\<close>), and when the clock reads 5 ms (a one-digit fragment).
\<close>

theorem referenceCode_format_counterexample:
  "\<not> matches (referencePattern ''DON'') (referenceCode ''DON'' 1700000000123 ''0.i'')
   \<and> \<not> matches (referencePattern ''DON'') (referenceCode ''DON'' 5 ''0.k3x9ab'')"
proof -
  have v1: "referenceCode ''DON'' 1700000000123 ''0.i'' = ''DON-00000123-I''"
    by (simp add: referenceCode_eval)
  have v2: "referenceCode ''DON'' 5 ''0.k3x9ab'' = ''DON-5-K3X9''"
    by (simp add: referenceCode_eval)
  show ?thesis
    unfolding v1 v2
    by (simp add: matches_def referencePattern_def Chr_def sAlt_def sSeq_def upperAlnumChars_def
        rxRep_numeral digitChars_def upperLetters_def)
qed

lemma referenceCode_not_falsy: "\<not> falsy (Some (referenceCode prefix now rnd36))"
  by (simp add: falsy_def referenceCode_def)

lemma donationPreSave_reference:
  "donation_donationReference (donationPreSave now rnd36 d) =
     (if falsy (donation_donationReference d) then Some (referenceCode ''DON'' now rnd36)
      else donation_donationReference d)"
  by (simp add: donationPreSave_def)

lemma donationPreSave_keeps:
  "\<not> falsy (donation_donationReference d) \<Longrightarrow>
   donation_donationReference (fold (\<lambda>(n, r). donationPreSave n r) saves d)
     = donation_donationReference d"
  by (induction saves arbitrary: d) (auto simp: donationPreSave_reference)

lemma mediaSubmissionPreSave_reference:
  "media_submissionReference (mediaSubmissionPreSave now rnd36 d) =
     (if falsy (media_submissionReference d) then Some (referenceCode ''MED'' now rnd36)
      else media_submissionReference d)"
  by (simp add: mediaSubmissionPreSave_def Let_def)

lemma mediaSubmissionPreSave_keeps:
  "\<not> falsy (media_submissionReference d) \<Longrightarrow>
   media_submissionReference (fold (\<lambda>(n, r). mediaSubmissionPreSave n r) saves d)
     = media_submissionReference d"
  by (induction saves arbitrary: d) (auto simp: mediaSubmissionPreSave_reference)

lemma eventRegistrationPreSave_reference:
  "registration_registrationReference (eventRegistrationPreSave now rnd36 d) =
     (if falsy (registration_registrationReference d) then Some (referenceCode ''REG'' now rnd36)
      else registration_registrationReference d)"
  by (simp add: eventRegistrationPreSave_def)

lemma eventRegistrationPreSave_keeps:
  "\<not> falsy (registration_registrationReference d) \<Longrightarrow>
   registration_registrationReference (fold (\<lambda>(n, r). eventRegistrationPreSave n r) saves d)
     = registration_registrationReference d"
  by (induction saves arbitrary: d) (auto simp: eventRegistrationPreSave_reference)

lemma contactUsPreSave_reference:
  "contactUs_ticketReference (contactUsPreSave now rnd36 d) =
     (if falsy (contactUs_ticketReference d) then Some (referenceCode ''TICKET'' now rnd36)
      else contactUs_ticketReference d)"
  by (simp add: contactUsPreSave_def)

lemma contactUsPreSave_keeps:
  "\<not> falsy (contactUs_ticketReference d) \<Longrightarrow>
   contactUs_ticketReference (fold (\<lambda>(n, r). contactUsPreSave n r) saves d)
     = contactUs_ticketReference d"
  by (induction saves arbitrary: d) (auto simp: contactUsPreSave_reference)

lemma volunteerPreSave_reference:
  "volunteer_volunteerReference (volunteerPreSave now rnd36 d) =
     (if falsy (volunteer_volunteerReference d) then Some (referenceCode ''VOL'' now rnd36)
      else volunteer_volunteerReference d)"
  by (simp add: volunteerPreSave_def)

lemma volunteerPreSave_keeps:
  "\<not> falsy (volunteer_volunteerReference d) \<Longrightarrow>
   volunteer_volunteerReference (fold (\<lambda>(n, r). volunteerPreSave n r) saves d)
     = volunteer_volunteerReference d"
  by (induction saves arbitrary: d) (auto simp: volunteerPreSave_reference)

text \<open>
  C4. A save runs the model's \<open>pre('save')\<close> hook. For every record and every sequence of
  saves, the first with clock \<open>now\<close> and random rendering \<open>rnd36\<close>: if the record had no
  reference, the reference after all the saves is the one generated by the first save; if it
  had one, it is that one. No later save regenerates or changes it. This holds for the
  hooks of donations, media submissions, event registrations, contact-us tickets and
  volunteers.
\<close>

theorem reference_assigned_once:
  "donation_donationReference (fold (\<lambda>(n, r). donationPreSave n r) ((now, rnd36) # later) d)
     = (if falsy (donation_donationReference d) then Some (referenceCode ''DON'' now rnd36)
        else donation_donationReference d)
   \<and> media_submissionReference
       (fold (\<lambda>(n, r). mediaSubmissionPreSave n r) ((now, rnd36) # later) m)
     = (if falsy (media_submissionReference m) then Some (referenceCode ''MED'' now rnd36)
        else media_submissionReference m)
   \<and> registration_registrationReference
       (fold (\<lambda>(n, r). eventRegistrationPreSave n r) ((now, rnd36) # later) e)
     = (if falsy (registration_registrationReference e)
        then Some (referenceCode ''REG'' now rnd36) else registration_registrationReference e)
   \<and> contactUs_ticketReference (fold (\<lambda>(n, r). contactUsPreSave n r) ((now, rnd36) # later) c)
     = (if falsy (contactUs_ticketReference c) then Some (referenceCode ''TICKET'' now rnd36)
        else contactUs_ticketReference c)
   \<and> volunteer_volunteerReference
       (fold (\<lambda>(n, r). volunteerPreSave n r) ((now, rnd36) # later) v)
     = (if falsy (volunteer_volunteerReference v) then Some (referenceCode ''VOL'' now rnd36)
        else volunteer_volunteerReference v)"
proof -
  have "\<not> falsy (donation_donationReference (donationPreSave now rnd36 d))"
    by (simp add: donationPreSave_reference referenceCode_not_falsy)
  note a = donationPreSave_keeps [OF this, of later]
  have "\<not> falsy (media_submissionReference (mediaSubmissionPreSave now rnd36 m))"
    by (simp add: mediaSubmissionPreSave_reference referenceCode_not_falsy)
  note b = mediaSubmissionPreSave_keeps [OF this, of later]
  have "\<not> falsy (registration_registrationReference (eventRegistrationPreSave now rnd36 e))"
    by (simp add: eventRegistrationPreSave_reference referenceCode_not_falsy)
  note c = eventRegistrationPreSave_keeps [OF this, of later]
  have "\<not> falsy (contactUs_ticketReference (contactUsPreSave now rnd36 c))"
    by (simp add: contactUsPreSave_reference referenceCode_not_falsy)
  note d = contactUsPreSave_keeps [OF this, of later]
  have "\<not> falsy (volunteer_volunteerReference (volunteerPreSave now rnd36 v))"
    by (simp add: volunteerPreSave_reference referenceCode_not_falsy)
  note e = volunteerPreSave_keeps [OF this, of later]
  show ?thesis
    using a b c d e
    by (simp add: donationPreSave_reference mediaSubmissionPreSave_reference
        eventRegistrationPreSave_reference contactUsPreSave_reference
        volunteerPreSave_reference)
qed

theorem reference_assigned_once_witness:
  "donation_donationReference
     (fold (\<lambda>(n, r). donationPreSave n r)
        [(1700000000123, ''0.k3x9ab''), (1700000555555, ''0.zzzzzz''), (1700000777777, ''0.i'')]
        sampleDonation)
   = Some ''DON-00000123-K3X9''"
proof -
  have "referenceCode ''DON'' 1700000000123 ''0.k3x9ab'' = ''DON-00000123-K3X9''"
    by (simp add: referenceCode_eval)
  then show ?thesis
    using reference_assigned_once [of 1700000000123 "''0.k3x9ab''"
        "[(1700000555555, ''0.zzzzzz''), (1700000777777, ''0.i'')]" sampleDonation]
    by (simp add: sampleDonation_def falsy_def)
qed


section \<open>Properties: donation amounts\<close>

lemma validateDonationAmount_range:
  "validateDonationAmount strToNum amount = Inr a \<longleftrightarrow>
     (\<exists>x. toNumber strToNum amount = Fin x \<and> 1 \<le> x \<and> x \<le> 10000000 \<and> a = Fin x)"
  by (cases "toNumber strToNum amount") (auto simp: validateDonationAmount_def isNaN_def Let_def)

lemma validateDonationAmount_boundaries:
  "validateDonationAmount strToNum (JNumber (Fin 0)) = Inl ''Please enter a valid donation amount''"
  "validateDonationAmount strToNum (JNumber (Fin 10000001))
     = Inl ''Maximum donation amount is 1,00,00,000''"
  "validateDonationAmount strToNum (JNumber (Fin 1)) = Inr (Fin 1)"
  "validateDonationAmount strToNum (JNumber (Fin 10000000)) = Inr (Fin 10000000)"
  by (simp_all add: validateDonationAmount_def isNaN_def)

lemma validateDonationAmount_NaN:
  "toNumber strToNum amount = NaN \<Longrightarrow>
   validateDonationAmount strToNum amount = Inl ''Please enter a valid donation amount''"
  by (simp add: validateDonationAmount_def isNaN_def)

text \<open>
  C8. The validation accepts exactly the values whose conversion \<open>Number(amount)\<close> is a
  number from 1 to 10000000 (\<open>validateDonationAmount_range\<close>), so 0 and 10000001 are
  refused and 1 and 10000000 accepted (\<open>validateDonationAmount_boundaries\<close>), and whatever
  converts to \<open>NaN\<close> is refused (\<open>validateDonationAmount_NaN\<close>). But \<open>Number(true)\<close> is 1:
  the boolean \<open>true\<close>, which is not numeric, is accepted as the amount 1.
\<close>

theorem validateDonationAmount_true_accepted:
  "validateDonationAmount strToNum (JBool True) = Inr (Fin 1)"
  by (simp add: validateDonationAmount_def isNaN_def)


section \<open>Properties: status updates\<close>










section \<open>Properties: evaluation of the string functions\<close>

lemma sample_email: "sanitizeInput (toLowerCase ''Asha@Example.org'') = ''asha@example.org''"
  by code_simp

lemma sample_email_valid: "validateEmail ''asha@example.org'' = Inr ()"
  by code_simp

lemma sample_name: "sanitizeInput ''Asha Rao'' = ''Asha Rao''"
  by code_simp

lemma sample_mobile: "sanitizeInput ''+91 98765 43210'' = ''+91 98765 43210''"
  by code_simp

lemma sample_mobile_valid: "validateMobile ''+91 98765 43210'' = Inr ''919876543210''"
  by code_simp

lemma sample_subject: "sanitizeInput ''donation'' = ''donation''"
  by code_simp

lemma sample_message:
  "sanitizeInput ''Please send me the donation details.'' = ''Please send me the donation details.''"
  by code_simp

lemma sample_contactUsInput:
  "contactUsInput (Some ''Asha Rao'') (Some ''Asha@Example.org'') (Some ''+91 98765 43210'')
     (Some ''donation'') (Some ''Please send me the donation details.'')
   = Inr (''Asha Rao'', ''asha@example.org'', ''919876543210'', ''donation'',
          ''Please send me the donation details.'')"
  by code_simp

lemma sample_schema_email: "matches schemaEmailRegex ''asha@example.org''"
  by code_simp

lemma sample_schema_mobile: "matches mobileRegex ''919876543210''"
  by code_simp

lemma sample_trims:
  "trim ''Asha Rao'' = ''Asha Rao''"
  "trim (toLowerCase ''asha@example.org'') = ''asha@example.org''"
  "trim ''919876543210'' = ''919876543210''"
  "trim ''Please send me the donation details.'' = ''Please send me the donation details.''"
  by code_simp+

lemma sample_ticket: "referenceCode ''TICKET'' 1700000000123 ''0.k3x9ab'' = ''TICKET-00000123-K3X9''"
  by (simp add: referenceCode_eval)

lemma sample_submitContactUs:
  "submitContactUs (Some ''Asha Rao'') (Some ''Asha@Example.org'') (Some ''+91 98765 43210'')
     (Some ''donation'') (Some ''Please send me the donation details.'')
     ''10.0.0.1'' ''agent'' 1700000000123 ''0.k3x9ab'' []
   = (respond 201
        ''Thank you for contacting us! We have received your message and will get back to you soon.'',
      [sampleContactUs])"
  by (simp add: submitContactUs_def sample_contactUsInput findOne_def Let_def contactUsCreate_def
      contactUsSetters_def contactUsValid_def contactUsPreSave_def falsy_def sample_trims
      sample_schema_email sample_schema_mobile sample_ticket validSubjects_def sampleContactUs_def)

lemma sample_volunteerInput:
  "volunteerInput (Some ''Asha Rao'') (Some ''Asha@Example.org'') (Some ''+91 98765 43210'')
     (Some ''I can teach mathematics on weekends.'') None
   = Inr (''Asha Rao'', ''asha@example.org'', ''919876543210'',
          ''I can teach mathematics on weekends.'', [])"
  by code_simp

lemma sample_sanitizedExpertise:
  "sanitizedExpertise (Some [''Hacking'', '' Education '']) = [''Education'']"
  "sanitizedExpertise (Some [''Hacking'']) = []"
  by code_simp+

lemma sample_volunteer_trims:
  "trim ''I can teach mathematics on weekends.'' = ''I can teach mathematics on weekends.''"
  "trim [] = []"
  by code_simp+

lemma sample_volunteer_reference:
  "referenceCode ''VOL'' 1700000000123 ''0.k3x9ab'' = ''VOL-00000123-K3X9''"
  by (simp add: referenceCode_eval)

lemma sample_registerVolunteer:
  "registerVolunteer (Some ''Asha Rao'') (Some ''Asha@Example.org'') (Some ''+91 98765 43210'')
     (Some [''Hacking'', '' Education '']) (Some ''I can teach mathematics on weekends.'') None
     ''10.0.0.1'' ''agent'' 1700000000123 ''0.k3x9ab'' []
   = (respond 201
        ''Thank you for registering as a volunteer with MAD Foundation. Our team will connect with you soon to discuss how you can make an impact.'',
      [sampleVolunteer])"
  by (simp add: registerVolunteer_def sample_volunteerInput findOne_def registerVolunteerOutcome_def
      volunteerCreate_def volunteerSetters_def volunteerValid_def volunteerPreSave_def falsy_def
      Let_def sample_sanitizedExpertise sample_trims sample_volunteer_trims sample_schema_email
      sample_schema_mobile sample_volunteer_reference validExpertise_def sampleVolunteer_def)








section \<open>Properties: queries\<close>

lemma findOneIdx_None: "findOneIdx P xs = None \<longleftrightarrow> (\<forall>x\<in>set xs. \<not> P x)"
  by (induction xs) auto

lemma findOneIdx_Some: "findOneIdx P xs = Some i \<Longrightarrow> i < length xs \<and> P (xs ! i)"
  by (induction xs arbitrary: i) (auto split: if_splits)

lemma findOneIdx_list_ex: "findOneIdx P xs \<noteq> None \<longleftrightarrow> list_ex P xs"
  by (simp add: findOneIdx_None list_ex_iff)

lemma findOne_list_ex: "findOne P xs \<noteq> None \<longleftrightarrow> list_ex P xs"
  using findOneIdx_list_ex [of P xs] by (auto simp: findOne_def split: option.splits)

lemma list_ex_findOne: "list_ex P xs \<Longrightarrow> findOne P xs \<noteq> None"
  using findOne_list_ex [of P xs] by blast


section \<open>Properties: newsletter\<close>

text \<open>
  C9. Subscribing an email that passes the input checks and whose existing record (the first
  with that email) has status \<open>unsubscribed\<close> is answered 200 and rewrites that record in
  place: its status becomes \<open>active\<close>, its \<open>subscribedAt\<close> the current time, its
  \<open>unsubscribedAt\<close> is cleared and its token replaced. Every other record is untouched and
  the collection keeps its size: no second record is created.
\<close>

theorem resubscribe_reactivates:
  assumes "truthy email0"
    and "validateEmail (sanitizeInput (toLowerCase (orEmpty email0))) = Inr ()"
    and "findOneIdx (\<lambda>r. subscriber_email r = sanitizeInput (toLowerCase (orEmpty email0))) store
           = Some i"
    and "subscriber_status (store ! i) = ''unsubscribed''"
  shows "subscribeNewsletter email0 ipAddress userAgent now token store =
           (respond 200 ''Welcome back! Your subscription has been reactivated.'',
            store[i := (store ! i)
              \<lparr>subscriber_status := ''active'',
               subscriber_subscribedAt := now,
               subscriber_unsubscribedAt := None,
               subscriber_unsubscribeToken := Some token,
               subscriber_updatedAt := now\<rparr>])
         \<and> length (snd (subscribeNewsletter email0 ipAddress userAgent now token store))
             = length store
         \<and> subscriber_status (snd (subscribeNewsletter email0 ipAddress userAgent now token store) ! i)
             = ''active''
         \<and> subscriber_subscribedAt
             (snd (subscribeNewsletter email0 ipAddress userAgent now token store) ! i) = now"
proof -
  from assms(3) have i: "i < length store" by (auto dest: findOneIdx_Some)
  have eq: "subscribeNewsletter email0 ipAddress userAgent now token store =
           (respond 200 ''Welcome back! Your subscription has been reactivated.'',
            store[i := (store ! i)
              \<lparr>subscriber_status := ''active'',
               subscriber_subscribedAt := now,
               subscriber_unsubscribedAt := None,
               subscriber_unsubscribeToken := Some token,
               subscriber_updatedAt := now\<rparr>])"
    using assms by (simp add: subscribeNewsletter_def truthy_def Let_def)
  show ?thesis
    unfolding eq using i by simp
qed

theorem resubscribe_reactivates_witness:
  "subscribeNewsletter (Some ''Asha@Example.org'') ''10.0.0.2'' ''agent'' 1700000900000 ''d4e5f6''
     [sampleSubscriber\<lparr>subscriber_status := ''unsubscribed'',
        subscriber_unsubscribedAt := Some 1700000500000\<rparr>]
   = (respond 200 ''Welcome back! Your subscription has been reactivated.'',
      [sampleSubscriber\<lparr>subscriber_status := ''active'',
         subscriber_subscribedAt := 1700000900000,
         subscriber_unsubscribedAt := None,
         subscriber_unsubscribeToken := Some ''d4e5f6'',
         subscriber_updatedAt := 1700000900000\<rparr>])"
proof -
  let ?store = "[sampleSubscriber\<lparr>subscriber_status := ''unsubscribed'',
        subscriber_unsubscribedAt := Some 1700000500000\<rparr>]"
  have h1: "truthy (Some ''Asha@Example.org'')"
    by (simp add: truthy_def falsy_def)
  have h2: "validateEmail (sanitizeInput (toLowerCase (orEmpty (Some ''Asha@Example.org'')))) = Inr ()"
    by (simp add: orEmpty_def sample_email sample_email_valid)
  have h3: "findOneIdx (\<lambda>r. subscriber_email r
        = sanitizeInput (toLowerCase (orEmpty (Some ''Asha@Example.org'')))) ?store = Some 0"
    by (simp add: orEmpty_def sample_email sampleSubscriber_def)
  have h4: "subscriber_status (?store ! 0) = ''unsubscribed''"
    by simp
  show ?thesis
    using resubscribe_reactivates [OF h1 h2 h3 h4, of "''10.0.0.2''" "''agent''" 1700000900000 "''d4e5f6''"]
    by simp
qed

text \<open>
  C2 (as amended). For a non-empty token, \<open>GET /unsubscribe/:token\<close> answers 200 whenever
  some record carries the token, also when that subscriber is already unsubscribed (the
  first such record is marked \<open>unsubscribed\<close> again), and 404 exactly when no record carries
  it, in which case nothing is written. The collection never changes size.
\<close>

theorem unsubscribe_by_token:
  assumes "token \<noteq> []"
  shows "res_status (fst (unsubscribeNewsletter token now store))
           = (if list_ex (\<lambda>r. subscriber_unsubscribeToken r = Some token) store then 200 else 404)
         \<and> length (snd (unsubscribeNewsletter token now store)) = length store
         \<and> (\<forall>i. findOneIdx (\<lambda>r. subscriber_unsubscribeToken r = Some token) store = Some i \<longrightarrow>
               subscriber_status (snd (unsubscribeNewsletter token now store) ! i) = ''unsubscribed'')
         \<and> (\<not> list_ex (\<lambda>r. subscriber_unsubscribeToken r = Some token) store \<longrightarrow>
               snd (unsubscribeNewsletter token now store) = store)"
  using assms findOneIdx_list_ex [of "\<lambda>r. subscriber_unsubscribeToken r = Some token" store]
  by (auto simp: unsubscribeNewsletter_def respond_def dest: findOneIdx_Some split: option.splits)

theorem unsubscribe_by_token_witness:
  "res_status (fst (unsubscribeNewsletter ''a1b2c3'' 1700000200000
      [sampleSubscriber\<lparr>subscriber_status := ''unsubscribed''\<rparr>])) = 200
   \<and> res_status (fst (unsubscribeNewsletter ''ffffff'' 1700000200000
      [sampleSubscriber\<lparr>subscriber_status := ''unsubscribed''\<rparr>])) = 404"
proof -
  have h1: "''a1b2c3'' \<noteq> []" and h2: "''ffffff'' \<noteq> []" by simp_all
  show ?thesis
    using unsubscribe_by_token [OF h1, of 1700000200000
        "[sampleSubscriber\<lparr>subscriber_status := ''unsubscribed''\<rparr>]"]
      unsubscribe_by_token [OF h2, of 1700000200000
        "[sampleSubscriber\<lparr>subscriber_status := ''unsubscribed''\<rparr>]"]
    by (simp add: sampleSubscriber_def)
qed

text \<open>
  Unsubscribing does not touch the token: a second request with the same token finds the
  unsubscribed record and is answered 200.
\<close>

theorem unsubscribe_twice_counterexample:
  "map subscriber_status (snd (unsubscribeNewsletter ''a1b2c3'' 1700000100000 [sampleSubscriber]))
     = [''unsubscribed'']
   \<and> res_status (fst (unsubscribeNewsletter ''a1b2c3'' 1700000200000
        (snd (unsubscribeNewsletter ''a1b2c3'' 1700000100000 [sampleSubscriber])))) = 200"
  by (simp add: unsubscribeNewsletter_def respond_def sampleSubscriber_def)

text \<open>
  The token is replaced only by a re-subscription; then the old token, carried by no other
  record, is answered 404.
\<close>

lemma old_token_after_resubscribe:
  assumes "truthy email0"
    and "validateEmail (sanitizeInput (toLowerCase (orEmpty email0))) = Inr ()"
    and "findOneIdx (\<lambda>r. subscriber_email r = sanitizeInput (toLowerCase (orEmpty email0))) store
           = Some i"
    and "subscriber_status (store ! i) = ''unsubscribed''"
    and "old \<noteq> []" and "token \<noteq> old"
    and "\<forall>j<length store. j \<noteq> i \<longrightarrow> subscriber_unsubscribeToken (store ! j) \<noteq> Some old"
  shows "res_status (fst (unsubscribeNewsletter old later
           (snd (subscribeNewsletter email0 ipAddress userAgent now token store)))) = 404"
proof -
  let ?store' = "snd (subscribeNewsletter email0 ipAddress userAgent now token store)"
  from assms(3) have i: "i < length store" by (auto dest: findOneIdx_Some)
  have eq: "?store' = store[i := (store ! i)
              \<lparr>subscriber_status := ''active'',
               subscriber_subscribedAt := now,
               subscriber_unsubscribedAt := None,
               subscriber_unsubscribeToken := Some token,
               subscriber_updatedAt := now\<rparr>]"
    using assms(1-4) by (simp add: subscribeNewsletter_def truthy_def Let_def)
  have "\<forall>r\<in>set ?store'. subscriber_unsubscribeToken r \<noteq> Some old"
  proof
    fix r assume "r \<in> set ?store'"
    then obtain j where j: "j < length ?store'" "r = ?store' ! j"
      by (auto simp: in_set_conv_nth)
    show "subscriber_unsubscribeToken r \<noteq> Some old"
    proof (cases "j = i")
      case True
      with j i assms(6) show ?thesis by (simp add: eq)
    next
      case False
      with j i assms(7) show ?thesis by (simp add: eq)
    qed
  qed
  then have "findOneIdx (\<lambda>r. subscriber_unsubscribeToken r = Some old) ?store' = None"
    by (simp add: findOneIdx_None)
  with assms(5) show ?thesis
    by (simp add: unsubscribeNewsletter_def respond_def)
qed


section \<open>Properties: contact-us\<close>

lemma contactUs_create_shape:
  "contactUsCreate doc now rnd36 store = Inr store' \<Longrightarrow>
   store' = store @ [contactUsPreSave now rnd36 (contactUsSetters doc)]"
  by (auto simp: contactUsCreate_def Let_def split: if_splits)

lemma contactUsPreSave_fields:
  "contactUs_priority (contactUsPreSave now rnd36 (contactUsSetters doc)) = contactUs_priority doc"
  "contactUs_subject (contactUsPreSave now rnd36 (contactUsSetters doc)) = contactUs_subject doc"
  by (simp_all add: contactUsPreSave_def contactUsSetters_def)

lemma contactUsInput_subject:
  assumes "contactUsInput fullName0 email0 mobile0 subject0 message0
     = Inr (fullName, email, cleanPhone, subject, msg)"
  shows "subject = sanitizeInput (orEmpty subject0)"
    and "subject \<in> set validSubjects"
    and "email = sanitizeInput (toLowerCase (orEmpty email0))"
proof -
  have "\<not> (falsy fullName0 \<or> falsy email0 \<or> falsy mobile0 \<or> falsy subject0 \<or> falsy message0)"
    using assms by (auto simp: contactUsInput_def)
  then have c: "subject = sanitizeInput (orEmpty subject0) \<and> subject \<in> set validSubjects
      \<and> email = sanitizeInput (toLowerCase (orEmpty email0))"
    using assms
    by (simp add: contactUsInput_def Let_def split: if_splits sum.splits)
  from c show "subject = sanitizeInput (orEmpty subject0)"
    by (rule conjunct1)
  from c have c2: "subject \<in> set validSubjects
      \<and> email = sanitizeInput (toLowerCase (orEmpty email0))"
    by (rule conjunct2)
  from c2 show "subject \<in> set validSubjects"
    by (rule conjunct1)
  from c2 show "email = sanitizeInput (toLowerCase (orEmpty email0))"
    by (rule conjunct2)
qed

text \<open>
  C6. A contact-us submission that passes the input checks, made when the collection holds a
  record with the same (normalised) email created at most 15 minutes before, is answered 429
  and the collection is left as it was: no record is written and the record count is
  unchanged.
\<close>

theorem contactUs_duplicate_window:
  assumes "contactUsInput fullName0 email0 mobile0 subject0 message0
             = Inr (fullName, email, cleanPhone, subject, msg)"
    and "list_ex (\<lambda>r. contactUs_email r = email
                      \<and> now - 15 * 60 * 1000 \<le> contactUs_createdAt r) store"
  shows "submitContactUs fullName0 email0 mobile0 subject0 message0 ipAddress userAgent now rnd36
           store
         = (respond 429
              ''Please wait at least 15 minutes before submitting another contact request'',
            store)"
proof -
  from assms(2) have
    "findOne (\<lambda>r. contactUs_email r = email
                      \<and> now - 15 * 60 * 1000 \<le> contactUs_createdAt r) store \<noteq> None"
    by (rule list_ex_findOne)
  with assms(1) show ?thesis
    by (simp add: submitContactUs_def)
qed

theorem contactUs_duplicate_window_witness:
  "submitContactUs (Some ''Asha Rao'') (Some ''Asha@Example.org'') (Some ''+91 98765 43210'')
     (Some ''donation'') (Some ''Please send me the donation details.'')
     ''10.0.0.1'' ''agent'' 1700000600000 ''0.zzzzzz'' [sampleContactUs]
   = (respond 429
        ''Please wait at least 15 minutes before submitting another contact request'',
      [sampleContactUs])"
proof -
  have h: "list_ex (\<lambda>r. contactUs_email r = ''asha@example.org''
                      \<and> 1700000600000 - 15 * 60 * 1000 \<le> contactUs_createdAt r) [sampleContactUs]"
    by (simp add: sampleContactUs_def)
  show ?thesis
    using contactUs_duplicate_window [OF sample_contactUsInput h] by simp
qed

text \<open>
  C10. The handler takes no priority from the request. Every accepted submission (201) adds
  exactly one record, whose subject is the sanitised subject of the request, a member of the
  valid subjects, and whose priority is \<open>high\<close> for \<open>donation\<close> and \<open>partnership\<close>, \<open>low\<close> for
  \<open>general-inquiry\<close> and \<open>medium\<close> for every other valid subject.
\<close>

theorem contactUs_priority_from_subject:
  assumes "res_status (fst (submitContactUs fullName0 email0 mobile0 subject0 message0
             ipAddress userAgent now rnd36 store)) = 201"
  shows "\<exists>doc. snd (submitContactUs fullName0 email0 mobile0 subject0 message0
             ipAddress userAgent now rnd36 store) = store @ [doc]
           \<and> contactUs_subject doc = sanitizeInput (orEmpty subject0)
           \<and> contactUs_subject doc \<in> set validSubjects
           \<and> contactUs_priority doc =
               (if contactUs_subject doc = ''donation'' \<or> contactUs_subject doc = ''partnership''
                then ''high''
                else if contactUs_subject doc = ''general-inquiry'' then ''low''
                else ''medium'')"
proof (cases "contactUsInput fullName0 email0 mobile0 subject0 message0")
  case (Inl m)
  with assms show ?thesis
    by (simp add: submitContactUs_def respond_def)
next
  case (Inr v)
  obtain fullName email cleanPhone subject msg
    where v: "v = (fullName, email, cleanPhone, subject, msg)"
    by (cases v) auto
  note s = contactUsInput_subject [OF Inr [unfolded v]]
  let ?dup = "findOne (\<lambda>r. contactUs_email r = email
                            \<and> now - 15 * 60 * 1000 \<le> contactUs_createdAt r) store \<noteq> None"
  let ?doc = "\<lparr>contactUs_fullName = fullName,
                 contactUs_email = email,
                 contactUs_mobile = cleanPhone,
                 contactUs_subject = subject,
                 contactUs_message = msg,
                 contactUs_status = ''new'',
                 contactUs_priority =
                   (if subject = ''donation'' \<or> subject = ''partnership'' then ''high''
                    else if subject = ''general-inquiry'' then ''low''
                    else ''medium''),
                 contactUs_source = ''website-contact-us'',
                 contactUs_ipAddress = ipAddress,
                 contactUs_userAgent = userAgent,
                 contactUs_ticketReference = None,
                 contactUs_assignedTo = None,
                 contactUs_resolvedAt = None,
                 contactUs_notes = None,
                 contactUs_createdAt = now,
                 contactUs_updatedAt = now\<rparr>"
  have eq: "submitContactUs fullName0 email0 mobile0 subject0 message0
             ipAddress userAgent now rnd36 store =
      (if ?dup then (respond 429
            ''Please wait at least 15 minutes before submitting another contact request'',
            store)
       else (case contactUsCreate ?doc now rnd36 store of
               Inl _ \<Rightarrow> (respond 500 ''Internal server error. Please try again later.'', store)
             | Inr store' \<Rightarrow>
                 (respond 201
                   ''Thank you for contacting us! We have received your message and will get back to you soon.'',
                  store')))"
    unfolding submitContactUs_def Inr v by (simp only: sum.case prod.case Let_def)
  from assms have nd: "\<not> ?dup"
    unfolding eq by (cases ?dup) (simp_all add: respond_def)
  show ?thesis
  proof (cases "contactUsCreate ?doc now rnd36 store")
    case (Inl e)
    with assms nd show ?thesis
      unfolding eq by (simp add: respond_def)
  next
    case created: (Inr store')
    define d where "d = contactUsPreSave now rnd36 (contactUsSetters ?doc)"
    from contactUs_create_shape [OF created]
    have st: "store' = store @ [d]"
      unfolding d_def .
    have 1: "snd (submitContactUs fullName0 email0 mobile0 subject0 message0
             ipAddress userAgent now rnd36 store) = store @ [d]"
      unfolding eq using nd created st by simp
    have 2: "contactUs_subject d = subject"
      unfolding d_def by (simp add: contactUsPreSave_fields)
    have 3: "contactUs_priority d =
        (if subject = ''donation'' \<or> subject = ''partnership'' then ''high''
         else if subject = ''general-inquiry'' then ''low'' else ''medium'')"
      unfolding d_def by (simp only: contactUsPreSave_fields contactUs.select_convs)
    from s(1) 2 have 4: "contactUs_subject d = sanitizeInput (orEmpty subject0)"
      by simp
    from s(2) 2 have 5: "contactUs_subject d \<in> set validSubjects"
      by simp
    have 6: "contactUs_priority d =
        (if contactUs_subject d = ''donation'' \<or> contactUs_subject d = ''partnership''
         then ''high''
         else if contactUs_subject d = ''general-inquiry'' then ''low'' else ''medium'')"
      unfolding 2 by (rule 3)
    from 1 4 5 6 show ?thesis by blast
  qed
qed

theorem contactUs_priority_from_subject_witness:
  "map contactUs_priority
     (snd (submitContactUs (Some ''Asha Rao'') (Some ''Asha@Example.org'')
        (Some ''+91 98765 43210'') (Some ''donation'')
        (Some ''Please send me the donation details.'')
        ''10.0.0.1'' ''agent'' 1700000000123 ''0.k3x9ab'' []))
   = [''high'']"
proof -
  have h: "res_status (fst (submitContactUs (Some ''Asha Rao'') (Some ''Asha@Example.org'')
        (Some ''+91 98765 43210'') (Some ''donation'')
        (Some ''Please send me the donation details.'')
        ''10.0.0.1'' ''agent'' 1700000000123 ''0.k3x9ab'' [])) = 201"
    by (simp add: sample_submitContactUs respond_def)
  from contactUs_priority_from_subject [OF h] obtain doc where
    "snd (submitContactUs (Some ''Asha Rao'') (Some ''Asha@Example.org'')
        (Some ''+91 98765 43210'') (Some ''donation'')
        (Some ''Please send me the donation details.'')
        ''10.0.0.1'' ''agent'' 1700000000123 ''0.k3x9ab'' []) = [] @ [doc]"
    and "contactUs_subject doc = sanitizeInput (orEmpty (Some ''donation''))"
    and "contactUs_priority doc =
               (if contactUs_subject doc = ''donation'' \<or> contactUs_subject doc = ''partnership''
                then ''high''
                else if contactUs_subject doc = ''general-inquiry'' then ''low''
                else ''medium'')"
    by blast
  then show ?thesis
    by (simp add: orEmpty_def sample_subject)
qed


section \<open>Properties: volunteers\<close>

lemma sanitizedExpertise_valid:
  "list_all (\<lambda>e. e \<in> set validExpertise) (sanitizedExpertise expertise)"
  by (cases expertise) (simp_all add: sanitizedExpertise_def list_all_iff)

lemma volunteerCreate_sanitized:
  "volunteerCreate (doc\<lparr>volunteer_expertise := sanitizedExpertise expertise\<rparr>) now rnd36 store =
     (case volunteerCreate (doc\<lparr>volunteer_expertise := []\<rparr>) now rnd36 store of
        Inl e \<Rightarrow> Inl e
      | Inr _ \<Rightarrow>
          Inr (store @ [(volunteerPreSave now rnd36 (volunteerSetters doc))
                          \<lparr>volunteer_expertise := sanitizedExpertise expertise\<rparr>]))"
  using sanitizedExpertise_valid [of expertise]
  by (simp add: volunteerCreate_def Let_def volunteerSetters_def volunteerPreSave_def
      volunteerValid_def)

lemma registerVolunteerOutcome_fst:
  "fst (registerVolunteerOutcome (case r of Inl e \<Rightarrow> Inl e | Inr _ \<Rightarrow> Inr s) store)
     = fst (registerVolunteerOutcome r store)"
  by (simp add: registerVolunteerOutcome_def split: sum.splits storeError.splits)

lemma registerVolunteerOutcome_created:
  "res_status (fst (registerVolunteerOutcome (case r of Inl e \<Rightarrow> Inl e | Inr _ \<Rightarrow> Inr s) store))
     = 201 \<Longrightarrow>
   snd (registerVolunteerOutcome (case r of Inl e \<Rightarrow> Inl e | Inr _ \<Rightarrow> Inr s) store) = s"
  by (simp add: registerVolunteerOutcome_def respond_def split: sum.splits storeError.splits)

text \<open>
  C5 (as amended). In the volunteer registration, a submitted expertise value that, once
  sanitised, is not a member of the closed set is dropped and never causes a rejection: the
  response does not depend on the submitted expertise at all, and an accepted registration
  (201) adds one record, which stores exactly the sanitised values that are members of the
  closed set, in the order submitted.
\<close>

theorem expertise_filtered_not_rejected:
  "fst (registerVolunteer fullName0 email0 mobile0 expertise howToHelp0 message0 ipAddress
          userAgent now rnd36 store)
     = fst (registerVolunteer fullName0 email0 mobile0 expertise' howToHelp0 message0 ipAddress
          userAgent now rnd36 store)
   \<and> (res_status (fst (registerVolunteer fullName0 email0 mobile0 expertise howToHelp0 message0
          ipAddress userAgent now rnd36 store)) = 201 \<longrightarrow>
       (\<exists>doc. snd (registerVolunteer fullName0 email0 mobile0 expertise howToHelp0 message0
                 ipAddress userAgent now rnd36 store) = store @ [doc]
          \<and> volunteer_expertise doc =
               filter (\<lambda>e. e \<in> set validExpertise)
                 (map sanitizeInput (case expertise of None \<Rightarrow> [] | Some exps \<Rightarrow> exps))
          \<and> set (volunteer_expertise doc) \<subseteq> set validExpertise))"
proof (cases "volunteerInput fullName0 email0 mobile0 howToHelp0 message0")
  case (Inl m)
  then show ?thesis
    by (simp add: registerVolunteer_def respond_def)
next
  case (Inr v)
  obtain fullName email cleanPhone howToHelp msg
    where v: "v = (fullName, email, cleanPhone, howToHelp, msg)"
    by (cases v) auto
  define base where "base =
              \<lparr>volunteer_fullName = fullName,
               volunteer_email = email,
               volunteer_mobile = cleanPhone,
               volunteer_expertise = [],
               volunteer_howToHelp = howToHelp,
               volunteer_message = msg,
               volunteer_status = ''pending'',
               volunteer_availability = ''flexible'',
               volunteer_source = ''website-volunteer-form'',
               volunteer_ipAddress = ipAddress,
               volunteer_userAgent = userAgent,
               volunteer_volunteerReference = None,
               volunteer_reviewedBy = None,
               volunteer_reviewedAt = None,
               volunteer_approvedAt = None,
               volunteer_rejectionReason = None,
               volunteer_notes = None,
               volunteer_createdAt = now,
               volunteer_updatedAt = now\<rparr>"
  define created where "created = volunteerCreate (base\<lparr>volunteer_expertise := []\<rparr>) now rnd36 store"
  define dup where "dup \<longleftrightarrow> findOne (\<lambda>r. volunteer_email r = email) store \<noteq> None"
  define d where "d ex = (volunteerPreSave now rnd36 (volunteerSetters base))
                          \<lparr>volunteer_expertise := sanitizedExpertise ex\<rparr>" for ex
  have eq0: "registerVolunteer fullName0 email0 mobile0 ex howToHelp0 message0 ipAddress
          userAgent now rnd36 store =
      (if dup
       then (respond 400 ''A volunteer with this email already exists'', store)
       else registerVolunteerOutcome
              (volunteerCreate (base\<lparr>volunteer_expertise := sanitizedExpertise ex\<rparr>)
                 now rnd36 store) store)" for ex
    unfolding registerVolunteer_def Inr v base_def dup_def by simp
  have eq: "registerVolunteer fullName0 email0 mobile0 ex howToHelp0 message0 ipAddress
          userAgent now rnd36 store =
      (if dup
       then (respond 400 ''A volunteer with this email already exists'', store)
       else registerVolunteerOutcome
              (case created of Inl e \<Rightarrow> Inl e | Inr _ \<Rightarrow> Inr (store @ [d ex])) store)" for ex
    unfolding eq0 volunteerCreate_sanitized created_def d_def by (rule refl)
  have first: "fst (registerVolunteer fullName0 email0 mobile0 expertise howToHelp0 message0
          ipAddress userAgent now rnd36 store)
     = fst (registerVolunteer fullName0 email0 mobile0 expertise' howToHelp0 message0 ipAddress
          userAgent now rnd36 store)"
    unfolding eq by (simp add: registerVolunteerOutcome_fst)
  have second: "\<exists>doc. snd (registerVolunteer fullName0 email0 mobile0 expertise howToHelp0 message0
                 ipAddress userAgent now rnd36 store) = store @ [doc]
          \<and> volunteer_expertise doc =
               filter (\<lambda>e. e \<in> set validExpertise)
                 (map sanitizeInput (case expertise of None \<Rightarrow> [] | Some exps \<Rightarrow> exps))
          \<and> set (volunteer_expertise doc) \<subseteq> set validExpertise"
    if ok: "res_status (fst (registerVolunteer fullName0 email0 mobile0 expertise howToHelp0 message0
          ipAddress userAgent now rnd36 store)) = 201"
  proof -
    from ok have nd: "\<not> dup"
      unfolding eq by (cases dup) (simp_all add: respond_def)
    with ok have "snd (registerVolunteer fullName0 email0 mobile0 expertise howToHelp0 message0
                 ipAddress userAgent now rnd36 store) = store @ [d expertise]"
      unfolding eq by (simp add: registerVolunteerOutcome_created)
    moreover have "volunteer_expertise (d expertise) = filter (\<lambda>e. e \<in> set validExpertise)
                 (map sanitizeInput (case expertise of None \<Rightarrow> [] | Some exps \<Rightarrow> exps))"
      unfolding d_def by (cases expertise) (simp_all add: sanitizedExpertise_def)
    moreover have "set (volunteer_expertise (d expertise)) \<subseteq> set validExpertise"
      unfolding d_def using sanitizedExpertise_valid [of expertise] by (auto simp: list_all_iff)
    ultimately show ?thesis by blast
  qed
  from first second show ?thesis by blast
qed

theorem expertise_filtered_not_rejected_witness:
  "map volunteer_expertise
     (snd (registerVolunteer (Some ''Asha Rao'') (Some ''Asha@Example.org'')
        (Some ''+91 98765 43210'') (Some [''Hacking'', '' Education ''])
        (Some ''I can teach mathematics on weekends.'') None
        ''10.0.0.1'' ''agent'' 1700000000123 ''0.k3x9ab'' []))
   = [[''Education'']]"
proof -
  have h: "res_status (fst (registerVolunteer (Some ''Asha Rao'') (Some ''Asha@Example.org'')
        (Some ''+91 98765 43210'') (Some [''Hacking'', '' Education ''])
        (Some ''I can teach mathematics on weekends.'') None
        ''10.0.0.1'' ''agent'' 1700000000123 ''0.k3x9ab'' [])) = 201"
    by (simp add: sample_registerVolunteer respond_def)
  have s: "filter (\<lambda>e. e \<in> set validExpertise)
             (map sanitizeInput
               (case Some [''Hacking'', '' Education ''] of None \<Rightarrow> [] | Some exps \<Rightarrow> exps))
           = [''Education'']"
    using sample_sanitizedExpertise(1) by (simp add: sanitizedExpertise_def)
  from expertise_filtered_not_rejected
    [of "Some ''Asha Rao''" "Some ''Asha@Example.org''" "Some ''+91 98765 43210''"
        "Some [''Hacking'', '' Education '']" "Some ''I can teach mathematics on weekends.''" None
        "''10.0.0.1''" "''agent''" 1700000000123 "''0.k3x9ab''" "[]" None] h
  obtain doc where
    "snd (registerVolunteer (Some ''Asha Rao'') (Some ''Asha@Example.org'')
        (Some ''+91 98765 43210'') (Some [''Hacking'', '' Education ''])
        (Some ''I can teach mathematics on weekends.'') None
        ''10.0.0.1'' ''agent'' 1700000000123 ''0.k3x9ab'' []) = [] @ [doc]"
    and "volunteer_expertise doc = filter (\<lambda>e. e \<in> set validExpertise)
             (map sanitizeInput
               (case Some [''Hacking'', '' Education ''] of None \<Rightarrow> [] | Some exps \<Rightarrow> exps))"
    by blast
  then show ?thesis
    by (simp only: s append_Nil list.map)
qed

text \<open>
  A registration that lists \<open>Hacking\<close>, which is not in the closed set, is accepted.
\<close>

theorem unlisted_expertise_counterexample:
  "''Hacking'' \<notin> set validExpertise
   \<and> res_status
       (fst (registerVolunteer (Some ''Asha Rao'') (Some ''Asha@Example.org'')
          (Some ''+91 98765 43210'') (Some [''Hacking'', '' Education ''])
          (Some ''I can teach mathematics on weekends.'') None
          ''10.0.0.1'' ''agent'' 1700000000123 ''0.k3x9ab'' [])) = 201"
  by (simp add: sample_registerVolunteer respond_def validExpertise_def)


section \<open>Properties: event registrations\<close>










end
